theory Spec2Isabelle
  imports Main "HOL-Library.Word"
begin

unbundle bit_operations_syntax

section \<open>Common types\<close>

text \<open>
  A binary blob (\<^verbatim>\<open>std::string_view\<close>) is a list of bytes. The host's \<^verbatim>\<open>size_t\<close> is
  a 64-bit unsigned integer; a \<^verbatim>\<open>string_view\<close> never holds \<open>2 ^ 64\<close> bytes or more, which
  the theorems about \<^verbatim>\<open>m_binary.size()\<close> assume where the size is read as a \<^verbatim>\<open>size_t\<close>.
\<close>

type_synonym byte = "8 word"
type_synonym size_t = "64 word"

text \<open>
  The kinds of \<^verbatim>\<open>MachineException\<close>. The enumeration itself is declared outside the
  sources modelled here; the names are those of the specification's error taxonomy.
\<close>

datatype exception_type =
    INVALID_PROGRAM
  | PROTECTION_FAULT
  | EXECUTION_SPACE_PROTECTION_FAULT
  | MISALIGNED_INSTRUCTION
  | MISALIGNED_MEMORY
  | ILLEGAL_OPERATION
  | UNIMPLEMENTED_SYSCALL
  | OUT_OF_MEMORY
  | MACHINE_TIMEOUT
  | USER_STOPPED

section \<open>ELF header and validation (elf.hpp)\<close>

definition ELFCLASS32 :: nat where "ELFCLASS32 = 1"
definition ELFCLASS64 :: nat where "ELFCLASS64 = 2"
definition ELFCLASS128 :: nat where "ELFCLASS128 = 3"

definition EI_NIDENT :: nat where "EI_NIDENT = 16"
definition EI_CLASS :: nat where "EI_CLASS = 4"
definition EM_RISCV :: nat where "EM_RISCV = 243"

text \<open>
  \<^verbatim>\<open>sizeof(Header)\<close>: the fields of \<^verbatim>\<open>struct Header\<close> in declaration order, each with its
  alignment and size in bytes, laid out as the C++ ABI does (every field at the next
  multiple of its alignment, the whole rounded up to the largest alignment).
  \<^verbatim>\<open>addr_t\<close> is the \<open>W\<close>-byte unsigned integer.
\<close>

definition align_up :: "nat \<Rightarrow> nat \<Rightarrow> nat" where
  "align_up a n = ((n + a - 1) div a) * a"

fun struct_end :: "nat \<Rightarrow> (nat \<times> nat) list \<Rightarrow> nat" where
  "struct_end ofs [] = ofs"
| "struct_end ofs ((a, sz) # fs) = struct_end (align_up a ofs + sz) fs"

definition struct_sizeof :: "(nat \<times> nat) list \<Rightarrow> nat" where
  "struct_sizeof fs = align_up (fold max (map fst fs) 1) (struct_end 0 fs)"

definition Header_fields :: "nat \<Rightarrow> (nat \<times> nat) list" where
  "Header_fields W =
    [(1, EI_NIDENT),  \<comment> \<open>\<^verbatim>\<open>unsigned char e_ident[EI_NIDENT]\<close>\<close>
     (2, 2),          \<comment> \<open>\<^verbatim>\<open>uint16_t e_type\<close>\<close>
     (2, 2),          \<comment> \<open>\<^verbatim>\<open>uint16_t e_machine\<close>\<close>
     (4, 4),          \<comment> \<open>\<^verbatim>\<open>uint32_t e_version\<close>\<close>
     (W, W),          \<comment> \<open>\<^verbatim>\<open>addr_t e_entry\<close>\<close>
     (W, W),          \<comment> \<open>\<^verbatim>\<open>addr_t e_phoff\<close>\<close>
     (W, W),          \<comment> \<open>\<^verbatim>\<open>addr_t e_shoff\<close>\<close>
     (4, 4),          \<comment> \<open>\<^verbatim>\<open>uint32_t e_flags\<close>\<close>
     (2, 2),          \<comment> \<open>\<^verbatim>\<open>uint16_t e_ehsize\<close>\<close>
     (2, 2),          \<comment> \<open>\<^verbatim>\<open>uint16_t e_phentsize\<close>\<close>
     (2, 2),          \<comment> \<open>\<^verbatim>\<open>uint16_t e_phnum\<close>\<close>
     (2, 2),          \<comment> \<open>\<^verbatim>\<open>uint16_t e_shentsize\<close>\<close>
     (2, 2),          \<comment> \<open>\<^verbatim>\<open>uint16_t e_shnum\<close>\<close>
     (2, 2)]          \<comment> \<open>\<^verbatim>\<open>uint16_t e_shstrndx\<close>\<close>"

definition sizeof_Header :: "nat \<Rightarrow> nat" where
  "sizeof_Header W = struct_sizeof (Header_fields W)"

text \<open>
  \<^verbatim>\<open>auto& hdr = *(Header *)binary.data()\<close>: the header is read in place, so
  \<^verbatim>\<open>hdr.e_ident[i]\<close> is byte \<open>i\<close> of the blob, and \<^verbatim>\<open>hdr.e_machine\<close> is the 16-bit field
  at byte offset 18 (where the first two fields, \<^verbatim>\<open>e_ident\<close> and \<^verbatim>\<open>e_type\<close>, end, whatever
  \<open>W\<close> is), least significant byte first (ELF for RISC-V is little-endian, as is the host).
\<close>

definition e_ident :: "byte list \<Rightarrow> nat \<Rightarrow> byte" where
  "e_ident binary i = binary ! i"

definition e_machine_offset :: nat where
  "e_machine_offset = struct_end 0 (take 2 (Header_fields 0))"

definition e_machine :: "byte list \<Rightarrow> 16 word" where
  "e_machine binary =
     word_cat (binary ! (e_machine_offset + 1)) (binary ! e_machine_offset)"

text \<open>
  \<^verbatim>\<open>Elf<W>::validate\<close>. The template parameter \<open>W\<close> is the address width in bytes; each
  \<^verbatim>\<open>if constexpr\<close> is a test on it.
\<close>

definition validate :: "nat \<Rightarrow> byte list \<Rightarrow> bool" where
  "validate W binary =
    (if length binary < sizeof_Header W then False
     else if e_ident binary 0 \<noteq> 0x7F \<or>
             e_ident binary 1 \<noteq> of_char CHR ''E'' \<or>
             e_ident binary 2 \<noteq> of_char CHR ''L'' \<or>
             e_ident binary 3 \<noteq> of_char CHR ''F'' then False
     else if W = 4 then e_ident binary EI_CLASS = of_nat ELFCLASS32
     else if W = 8 then e_ident binary EI_CLASS = of_nat ELFCLASS64
     else if W = 16 then e_ident binary EI_CLASS = of_nat ELFCLASS128
     else False)"

section \<open>Offsets into the binary (Memory, elf.hpp)\<close>

text \<open>
  \<^verbatim>\<open>Memory<W>::elf_offset<T>(ofs)\<close>, with exceptions enabled. \<open>sizeof_T\<close> is \<^verbatim>\<open>sizeof(T)\<close>;
  the sum \<^verbatim>\<open>ofs + sizeof(T)\<close> is computed in \<^verbatim>\<open>size_t\<close> and wraps around. The pointer
  \<^verbatim>\<open>&m_binary[ofs]\<close> it returns is represented by the offset \<open>ofs\<close> into the binary; the
  exception it throws is \<^verbatim>\<open>MachineException(INVALID_PROGRAM, "Invalid ELF offset", ofs)\<close>,
  represented by its kind.
\<close>

definition elf_offset :: "byte list \<Rightarrow> size_t \<Rightarrow> size_t \<Rightarrow> exception_type + size_t" where
  "elf_offset m_binary sizeof_T ofs =
    (if ofs + sizeof_T \<ge> ofs \<and> ofs + sizeof_T < of_nat (length m_binary)
     then Inr ofs
     else Inl INVALID_PROGRAM)"

definition elf_header :: "nat \<Rightarrow> byte list \<Rightarrow> exception_type + size_t" where
  "elf_header W m_binary = elf_offset m_binary (of_nat (sizeof_Header W)) 0"

text \<open>The bytes a structure of \<open>sizeof_T\<close> bytes at offset \<open>ofs\<close> occupies.\<close>

definition structure_bytes :: "size_t \<Rightarrow> size_t \<Rightarrow> nat list" where
  "structure_bytes sizeof_T ofs = [unat ofs ..< unat ofs + unat sizeof_T]"

section \<open>The loader's checks of the header\<close>

text \<open>
  Modelled from the spec: \<^verbatim>\<open>Memory::binary_loader\<close> is only declared in the sources modelled
  here. By the specification (4.3) the loader accepts a binary blob, validates the magic
  and the class byte matching \<open>W\<close>, and rejects the blob if the machine is not
  \<^verbatim>\<open>EM_RISCV\<close> (243) or the file is shorter than the header; a structural violation raises
  \<^verbatim>\<open>INVALID_PROGRAM\<close>. The validation is \<^verbatim>\<open>Elf<W>::validate\<close> above; \<open>Inr ()\<close> is a header
  accepted for loading.
\<close>

definition binary_loader_header :: "nat \<Rightarrow> byte list \<Rightarrow> exception_type + unit" where
  "binary_loader_header W m_binary =
    (if length m_binary < sizeof_Header W then Inl INVALID_PROGRAM
     else if \<not> validate W m_binary then Inl INVALID_PROGRAM
     else if e_machine m_binary \<noteq> of_nat EM_RISCV then Inl INVALID_PROGRAM
     else Inr ())"

section \<open>Pages, memory and CPU state\<close>

text \<open>
  A \<^verbatim>\<open>Page\<close> object is reached through pointers (the CPU's cached pages hold
  \<^verbatim>\<open>const Page*\<close>), so the state keeps a store from page addresses to pages, and every
  \<^verbatim>\<open>page->...\<close> reads the store at the time of the access. Of a page, the code modelled
  here reads \<^verbatim>\<open>attr.exec\<close>, \<^verbatim>\<open>has_trap()\<close> and \<^verbatim>\<open>decoder_cache()\<close>.
\<close>

type_synonym page_ptr = nat

record Page =
  attr_exec :: bool
  has_trap :: bool
  has_decoder_cache :: bool

text \<open>
  \<^verbatim>\<open>Memory<W>\<close>: the address fields and the page table. The type parameter is
  \<^verbatim>\<open>address_t\<close>, instantiated with \<open>'w word\<close> (32, 64 or 128 bits).
\<close>

record 'a Memory =
  m_start_address :: 'a
  m_stack_address :: 'a
  m_exit_address :: 'a
  m_mmap_address :: 'a
  m_heap_address :: 'a
  m_pages :: "'a \<Rightarrow> page_ptr option"
  page_at :: "page_ptr \<Rightarrow> Page"

text \<open>
  The CPU's cached execute page. \<^verbatim>\<open>change_page\<close> takes the page number as an \<^verbatim>\<open>int\<close> and
  \<^verbatim>\<open>check_page\<close> compares \<^verbatim>\<open>cp.pageno\<close> with a \<^verbatim>\<open>const int\<close>: the page number is a
  32-bit \<^verbatim>\<open>int\<close> here.
\<close>

record CachedPage =
  page :: page_ptr
  pageno :: "32 word"

text \<open>
  \<^verbatim>\<open>CPU<W>\<close>: \<open>pc\<close> is \<^verbatim>\<open>registers().pc\<close>, \<open>reg\<close> the general registers \<^verbatim>\<open>reg(i)\<close>. The
  counter \<^verbatim>\<open>m_cache_iterator\<close> only ever indexes the page cache modulo its size.
\<close>

record 'a CPU =
  pc :: 'a
  reg :: "nat \<Rightarrow> 'a"
  m_current_page :: CachedPage
  m_page_cache :: "CachedPage list"
  m_cache_iterator :: nat

record 'a Machine =
  cpu :: "'a CPU"
  memory :: "'a Memory"

text \<open>
  A call either returns or throws a \<^verbatim>\<open>MachineException\<close>; both leave a state behind,
  since what was written before a \<^verbatim>\<open>throw\<close> stays written.
\<close>

datatype 's outcome = Returns 's | Throws exception_type 's

fun thrown :: "'s outcome \<Rightarrow> exception_type option" where
  "thrown (Returns s) = None"
| "thrown (Throws e s) = Some e"

fun state_of :: "'s outcome \<Rightarrow> 's" where
  "state_of (Returns s) = s"
| "state_of (Throws e s) = s"

text \<open>The compile-time switches the code tests.\<close>

record config =
  compressed_enabled :: bool
  execute_traps_enabled :: bool
  RISCV_PAGE_CACHE :: bool
  RISCV_INSTR_CACHE :: bool

datatype trap_mode = TRAP_READ | TRAP_WRITE | TRAP_EXEC

text \<open>
  Two collaborators of \<^verbatim>\<open>change_page\<close> and \<^verbatim>\<open>check_page\<close> are declared but not defined in
  the sources modelled here, and are parameters of the model:
  \<^item> \<open>page_trap p offset mode pageno\<close> is \<^verbatim>\<open>p->trap(offset, mode, pageno)\<close>, the page's
    trap callback: user code, which may change the machine (redirect the PC) or throw;
  \<^item> \<open>mem_get_exec_pageno mem npage\<close> is \<^verbatim>\<open>memory.get_exec_pageno(npage)\<close>, declared
    \<^verbatim>\<open>const\<close> and "throws": it returns a page or throws.
\<close>

record 'a collaborators =
  page_trap :: "page_ptr \<Rightarrow> 'a \<Rightarrow> trap_mode \<Rightarrow> 32 word \<Rightarrow> 'a Machine \<Rightarrow> 'a Machine outcome"
  mem_get_exec_pageno :: "'a Memory \<Rightarrow> 'a \<Rightarrow> exception_type + page_ptr"

text \<open>
  Modelled from the spec: \<^verbatim>\<open>Memory::get_pageno\<close> is only declared in the sources modelled
  here. By the specification a page number absent from the page table stands for
  the default page; \<open>default_page\<close> is the global default page.
\<close>

definition get_pageno :: "page_ptr \<Rightarrow> 'a Memory \<Rightarrow> 'a \<Rightarrow> page_ptr" where
  "get_pageno default_page mem npage =
     (case m_pages mem npage of Some p \<Rightarrow> p | None \<Rightarrow> default_page)"

text \<open>
  Modelled from the spec: \<^verbatim>\<open>Memory::get_exec_pageno\<close> is only declared in the sources
  modelled here. By the specification \<^verbatim>\<open>get_exec_pageno(n)\<close> raises
  \<^verbatim>\<open>EXECUTION_SPACE_PROTECTION_FAULT\<close> if the page has no exec permission.
\<close>

definition get_exec_pageno :: "page_ptr \<Rightarrow> 'a Memory \<Rightarrow> 'a \<Rightarrow> exception_type + page_ptr" where
  "get_exec_pageno default_page mem npage =
     (let p = get_pageno default_page mem npage
      in if attr_exec (page_at mem p) then Inr p else Inl EXECUTION_SPACE_PROTECTION_FAULT)"

text \<open>
  Modelled from the spec: \<^verbatim>\<open>CPU::trigger_exception\<close> is not defined in the sources
  modelled here. By the specification a fault raised inside the interpreter unwinds to \<^verbatim>\<open>run\<close>: the call
  throws the exception of the given kind and does not return.
\<close>

definition trigger_exception :: "exception_type \<Rightarrow> 's \<Rightarrow> 's outcome" where
  "trigger_exception e s = Throws e s"

section \<open>Memory accessors (elf.hpp)\<close>

definition stack_initial :: "'a Memory \<Rightarrow> 'a" where
  "stack_initial mem = m_stack_address mem"

definition heap_address :: "'a Memory \<Rightarrow> 'a" where
  "heap_address mem = m_heap_address mem"

text \<open>
  \<^verbatim>\<open>BRK_MAX\<close> is the macro \<^verbatim>\<open>RISCV_BRK_MEMORY_SIZE\<close>, converted to \<^verbatim>\<open>address_t\<close>; the macro is
  defined by the build, so it is a parameter. The sum is computed in \<^verbatim>\<open>address_t\<close>.
\<close>

definition mmap_start :: "'w::len word \<Rightarrow> ('w word) Memory \<Rightarrow> 'w word" where
  "mmap_start BRK_MAX mem = m_heap_address mem + BRK_MAX"

section \<open>The CPU's inline functions\<close>

text \<open>
  The constructor \<^verbatim>\<open>CPU(Machine& machine) : m_machine { machine } { }\<close> binds the
  reference to its machine and has an empty body: every other member is left as its
  default member initialiser makes it. Those initialisers are declared with the class,
  outside the sources modelled here, so the default-initialised members are the parameter
  \<open>defaults\<close>. The reference \<^verbatim>\<open>m_machine\<close> is the enclosing \<open>Machine\<close> record.
\<close>

definition CPU_construct :: "'a CPU \<Rightarrow> 'a Machine \<Rightarrow> 'a CPU" where
  "CPU_construct defaults machine = defaults"

text \<open>
  Modelled from the spec: \<^verbatim>\<open>RISCV::REG_SP\<close> is declared outside the sources modelled here;
  the stack pointer is general register 2.
\<close>

definition REG_SP :: nat where "REG_SP = 2"

definition reset_stack_pointer :: "'a Machine \<Rightarrow> 'a Machine" where
  "reset_stack_pointer s =
     s\<lparr>cpu := (cpu s)\<lparr>reg := (reg (cpu s))(REG_SP := stack_initial (memory s))\<rparr>\<rparr>"

text \<open>
  Modelled from the spec: the constructor of \<^verbatim>\<open>Machine\<close> is not in the sources modelled
  here. By the specification (4.6), construction initialises the CPU registers to zero
  except \<^verbatim>\<open>SP\<close>, which is set to \<^verbatim>\<open>stack_initial()\<close>. The step is the CPU's constructor,
  the zeroing of the registers and \<^verbatim>\<open>reset_stack_pointer\<close>, the latter two on the memory
  that the loader has set up.
\<close>

definition Machine_init_cpu :: "('w::len word) CPU \<Rightarrow> ('w word) Machine \<Rightarrow> ('w word) Machine" where
  "Machine_init_cpu defaults m =
     reset_stack_pointer (m\<lparr>cpu := (CPU_construct defaults m)\<lparr>reg := (\<lambda>i. 0)\<rparr>\<rparr>)"

text \<open>\<^verbatim>\<open>Page::SHIFT\<close>: pages are 4096 bytes.\<close>

definition Page_SHIFT :: nat where "Page_SHIFT = 12"

text \<open>
  \<^verbatim>\<open>const int new_pageno = this->pc() >> Page::SHIFT\<close>: the shift is done in \<^verbatim>\<open>address_t\<close>
  and the result converted to \<^verbatim>\<open>int\<close>, which keeps its low 32 bits.
\<close>

definition pc_pageno :: "('w::len word) Machine \<Rightarrow> 32 word" where
  "pc_pageno s = ucast (drop_bit Page_SHIFT (pc (cpu s)))"

text \<open>
  \<^verbatim>\<open>m_page_cache[m_cache_iterator % m_page_cache.size()] = m_current_page; m_cache_iterator++\<close>
\<close>

definition cache_current_page :: "'a CPU \<Rightarrow> 'a CPU" where
  "cache_current_page c =
     c\<lparr>m_page_cache :=
          (m_page_cache c)[m_cache_iterator c mod length (m_page_cache c) := m_current_page c],
        m_cache_iterator := m_cache_iterator c + 1\<rparr>"

definition create_decoder_cache :: "page_ptr \<Rightarrow> 'a Memory \<Rightarrow> 'a Memory" where
  "create_decoder_cache p mem =
     mem\<lparr>page_at := (page_at mem)(p := (page_at mem p)\<lparr>has_decoder_cache := True\<rparr>)\<rparr>"

text \<open>
  \<^verbatim>\<open>change_page\<close> and \<^verbatim>\<open>check_page\<close> call each other: a trap callback may move the PC to
  another page with a trap, without bound. The first argument bounds the depth of the
  calls; \<open>None\<close> is a run that needs more. The code from the label
  \<^verbatim>\<open>riscv_validate_current_page\<close> to the end of \<^verbatim>\<open>change_page\<close> is a function of its own,
  entered from the page-cache hit (the \<^verbatim>\<open>goto\<close>) and from the miss.

  In \<^verbatim>\<open>check_page(CachedPage& cp)\<close> the argument is a reference: \<^verbatim>\<open>change_page\<close> passes
  \<^verbatim>\<open>m_current_page\<close>, so every \<^verbatim>\<open>cp.\<close> reads the CPU's current page at that moment, also after
  the callback has run. \<^verbatim>\<open>cp.pageno << Page::SHIFT\<close> is computed in \<^verbatim>\<open>int\<close> and converted to
  \<^verbatim>\<open>address_t\<close> (sign-extended) for the subtraction, as is the \<^verbatim>\<open>int pageno\<close> handed to
  \<^verbatim>\<open>get_exec_pageno\<close>.
\<close>

fun change_page ::
    "nat \<Rightarrow> config \<Rightarrow> ('w::len word) collaborators \<Rightarrow> 32 word \<Rightarrow> ('w word) Machine
      \<Rightarrow> ('w word) Machine outcome option"
  and riscv_validate_current_page ::
    "nat \<Rightarrow> config \<Rightarrow> ('w::len word) collaborators \<Rightarrow> ('w word) Machine
      \<Rightarrow> ('w word) Machine outcome option"
  and check_page ::
    "nat \<Rightarrow> config \<Rightarrow> ('w::len word) collaborators \<Rightarrow> ('w word) Machine
      \<Rightarrow> ('w word) Machine outcome option"
where
  "change_page 0 cfg ext n s = None"
| "change_page (Suc fuel) cfg ext n s =
    (case (if RISCV_PAGE_CACHE cfg
           then find (\<lambda>cache. pageno cache = n) (m_page_cache (cpu s)) else None) of
      Some cache \<Rightarrow>
        riscv_validate_current_page fuel cfg ext (s\<lparr>cpu := (cpu s)\<lparr>m_current_page := cache\<rparr>\<rparr>)
    | None \<Rightarrow>
        (let s1 = s\<lparr>cpu := (cpu s)\<lparr>m_current_page := (m_current_page (cpu s))\<lparr>pageno := n\<rparr>\<rparr>\<rparr>
         in case mem_get_exec_pageno ext (memory s1) (scast n) of
              Inl e \<Rightarrow> Some (Throws e s1)
            | Inr p \<Rightarrow>
                (let s2 = s1\<lparr>cpu := (cpu s1)\<lparr>m_current_page := (m_current_page (cpu s1))\<lparr>page := p\<rparr>\<rparr>\<rparr>;
                     s3 = (if RISCV_PAGE_CACHE cfg
                           then s2\<lparr>cpu := cache_current_page (cpu s2)\<rparr> else s2)
                 in riscv_validate_current_page fuel cfg ext s3)))"
| "riscv_validate_current_page fuel cfg ext s =
    (case (if execute_traps_enabled cfg then check_page fuel cfg ext s else Some (Returns s)) of
      None \<Rightarrow> None
    | Some (Throws e s1) \<Rightarrow> Some (Throws e s1)
    | Some (Returns s1) \<Rightarrow>
        (let p = page (m_current_page (cpu s1))
         in if \<not> attr_exec (page_at (memory s1) p)
            then Some (trigger_exception EXECUTION_SPACE_PROTECTION_FAULT s1)
            else if RISCV_INSTR_CACHE cfg \<and> \<not> has_decoder_cache (page_at (memory s1) p)
            then Some (Returns (s1\<lparr>memory := create_decoder_cache p (memory s1)\<rparr>))
            else Some (Returns s1)))"
| "check_page fuel cfg ext s =
    (let cp = m_current_page (cpu s)
     in if has_trap (page_at (memory s) (page cp))
        then (case page_trap ext (page cp)
                     (pc (cpu s) - scast (push_bit Page_SHIFT (pageno cp))) TRAP_EXEC (pageno cp) s of
                Throws e s1 \<Rightarrow> Some (Throws e s1)
              | Returns s1 \<Rightarrow>
                  (let new_pageno = pc_pageno s1
                   in if pageno (m_current_page (cpu s1)) \<noteq> new_pageno
                      then change_page fuel cfg ext new_pageno s1
                      else Some (Returns s1)))
        else Some (Returns s))"

text \<open>
  \<^verbatim>\<open>CPU<W>::jump\<close>. It touches \<^verbatim>\<open>registers().pc\<close> only, so it is a function of the CPU.
\<close>

definition jump :: "config \<Rightarrow> 'w::len word \<Rightarrow> ('w word) CPU \<Rightarrow> ('w word) CPU outcome" where
  "jump cfg dst c =
    (let c1 = c\<lparr>pc := dst\<rparr>
     in if \<not> compressed_enabled cfg
        then (if pc c1 AND 0x3 \<noteq> 0 then trigger_exception MISALIGNED_INSTRUCTION c1
              else Returns c1)
        else (if pc c1 AND 0x1 \<noteq> 0 then trigger_exception MISALIGNED_INSTRUCTION c1
              else Returns c1))"

section \<open>Predicates for the statements about the execute page\<close>

text \<open>
  What \<^verbatim>\<open>change_page(n)\<close> resolves page number \<open>n\<close> to before it validates the page: the
  entry of the page cache on a hit, else the outcome of \<^verbatim>\<open>get_exec_pageno(n)\<close>.
\<close>

definition resolved_page ::
    "config \<Rightarrow> ('w::len word) collaborators \<Rightarrow> 32 word \<Rightarrow> ('w word) Machine
      \<Rightarrow> exception_type + page_ptr" where
  "resolved_page cfg ext n s =
     (case (if RISCV_PAGE_CACHE cfg
            then find (\<lambda>cache. pageno cache = n) (m_page_cache (cpu s)) else None) of
        Some cache \<Rightarrow> Inr (page cache)
      | None \<Rightarrow> mem_get_exec_pageno ext (memory s) (scast n))"

text \<open>
  The page that stands for page number \<open>n\<close>: the cached one on a hit, else the one in the
  page table (the default page where the table has none).
\<close>

definition page_of_pageno ::
    "config \<Rightarrow> page_ptr \<Rightarrow> 32 word \<Rightarrow> ('w::len word) Machine \<Rightarrow> page_ptr" where
  "page_of_pageno cfg default_page n s =
     (case (if RISCV_PAGE_CACHE cfg
            then find (\<lambda>cache. pageno cache = n) (m_page_cache (cpu s)) else None) of
        Some cache \<Rightarrow> page cache
      | None \<Rightarrow> get_pageno default_page (memory s) (scast n))"

text \<open>The cached execute page is the page of the PC: \<^verbatim>\<open>m_current_page.pageno == pc >> 12\<close>.\<close>

definition current_page_matches_pc :: "('w::len word) Machine \<Rightarrow> bool" where
  "current_page_matches_pc s \<longleftrightarrow> pageno (m_current_page (cpu s)) = pc_pageno s"

section \<open>A sample machine\<close>

text \<open>
  A 32-bit machine. Page object 1 is a trap page without exec permission, page object 2
  is executable, every other page object is neither. Page numbers 5, 7, 9 and 11 are
  mapped; 5, 7 and 9 are in the page cache, whose fourth slot is unused. The PC is at
  byte 4 of page 5.
\<close>

definition sample_pages :: "page_ptr \<Rightarrow> Page" where
  "sample_pages p =
     (if p = 1 then \<lparr>attr_exec = False, has_trap = True, has_decoder_cache = False\<rparr>
      else if p = 2 then \<lparr>attr_exec = True, has_trap = False, has_decoder_cache = False\<rparr>
      else \<lparr>attr_exec = False, has_trap = False, has_decoder_cache = False\<rparr>)"

definition sample_memory :: "(32 word) Memory" where
  "sample_memory =
     \<lparr>m_start_address = 0x7000, m_stack_address = 0x40000000, m_exit_address = 0,
      m_mmap_address = 0x1020000, m_heap_address = 0x20000,
      m_pages = [5 \<mapsto> 1, 7 \<mapsto> 2, 9 \<mapsto> 3, 11 \<mapsto> 4], page_at = sample_pages\<rparr>"

definition sample_cpu :: "(32 word) CPU" where
  "sample_cpu =
     \<lparr>pc = 0x5004, reg = (\<lambda>i. 0), m_current_page = \<lparr>page = 1, pageno = 5\<rparr>,
      m_page_cache = [\<lparr>page = 2, pageno = 7\<rparr>, \<lparr>page = 1, pageno = 5\<rparr>,
                      \<lparr>page = 3, pageno = 9\<rparr>, \<lparr>page = 0, pageno = - 1\<rparr>],
      m_cache_iterator = 3\<rparr>"

definition sample_machine :: "(32 word) Machine" where
  "sample_machine = \<lparr>cpu = sample_cpu, memory = sample_memory\<rparr>"

text \<open>A CPU whose registers are all zero, and which has no current page yet.\<close>

definition zero_cpu :: "(32 word) CPU" where
  "zero_cpu =
     \<lparr>pc = 0, reg = (\<lambda>i. 0), m_current_page = \<lparr>page = 0, pageno = - 1\<rparr>,
      m_page_cache = [], m_cache_iterator = 0\<rparr>"

definition sample_config :: config where
  "sample_config =
     \<lparr>compressed_enabled = True, execute_traps_enabled = True,
      RISCV_PAGE_CACHE = True, RISCV_INSTR_CACHE = False\<rparr>"

text \<open>
  A trap callback that, called for an execute trap, records the offset and the page
  number it was given in registers 10 and 11 and moves the PC to \<open>0x7000\<close> (page 7), and
  that throws when called for anything else; with it the specification's
  \<^verbatim>\<open>get_exec_pageno\<close>, page object 0 being the default page.
\<close>

definition redirecting :: "(32 word) collaborators" where
  "redirecting =
     \<lparr>page_trap = (\<lambda>p offset mode n s.
        if mode = TRAP_EXEC
        then Returns (s\<lparr>cpu := (cpu s)\<lparr>pc := 0x7000,
                                        reg := (reg (cpu s))(10 := offset, 11 := ucast n)\<rparr>\<rparr>)
        else Throws ILLEGAL_OPERATION s),
      mem_get_exec_pageno = get_exec_pageno 0\<rparr>"

section \<open>A sample 64-bit machine\<close>

text \<open>
  Two 64-bit machines over one memory, in which page object 1 (a trap page) stands for
  page numbers 0 and \<open>0x80000\<close>: one with the PC at byte 4 of page \<open>0x80000\<close>, one with
  the PC at byte 16 of page 0; in both the current page is the PC's page. One trap
  callback records the offset it is given in register 10 and leaves the PC alone; the
  other moves the PC to \<open>2 ^ 44\<close>, the first byte of page \<open>2 ^ 32\<close>.
\<close>

definition sample_memory64 :: "(64 word) Memory" where
  "sample_memory64 =
     \<lparr>m_start_address = 0x10000, m_stack_address = 0x40000000, m_exit_address = 0,
      m_mmap_address = 0x1020000, m_heap_address = 0x20000,
      m_pages = [0 \<mapsto> 1, 0x80000 \<mapsto> 1], page_at = sample_pages\<rparr>"

definition sample_machine64_high :: "(64 word) Machine" where
  "sample_machine64_high =
     \<lparr>cpu = \<lparr>pc = 0x80000004, reg = (\<lambda>i. 0), m_current_page = \<lparr>page = 1, pageno = 0x80000\<rparr>,
             m_page_cache = [\<lparr>page = 1, pageno = 0x80000\<rparr>], m_cache_iterator = 1\<rparr>,
      memory = sample_memory64\<rparr>"

definition sample_machine64_low :: "(64 word) Machine" where
  "sample_machine64_low =
     \<lparr>cpu = \<lparr>pc = 0x10, reg = (\<lambda>i. 0), m_current_page = \<lparr>page = 1, pageno = 0\<rparr>,
             m_page_cache = [\<lparr>page = 1, pageno = 0\<rparr>], m_cache_iterator = 1\<rparr>,
      memory = sample_memory64\<rparr>"

definition recording64 :: "(64 word) collaborators" where
  "recording64 =
     \<lparr>page_trap = (\<lambda>p offset mode n s.
        Returns (s\<lparr>cpu := (cpu s)\<lparr>reg := (reg (cpu s))(10 := offset)\<rparr>\<rparr>)),
      mem_get_exec_pageno = get_exec_pageno 0\<rparr>"

definition far_jumping64 :: "(64 word) collaborators" where
  "far_jumping64 =
     \<lparr>page_trap = (\<lambda>p offset mode n s. Returns (s\<lparr>cpu := (cpu s)\<lparr>pc := 0x100000000000\<rparr>\<rparr>)),
      mem_get_exec_pageno = get_exec_pageno 0\<rparr>"

section \<open>Sample binaries\<close>

text \<open>
  Header-sized blobs with a valid magic: an ELF32 and an ELF64 header with every other
  field zero, and an ELF32 header whose \<^verbatim>\<open>e_machine\<close> is 62 (\<^verbatim>\<open>EM_X86_64\<close>).
\<close>

definition sample_elf32 :: "byte list" where
  "sample_elf32 = [0x7F, 0x45, 0x4C, 0x46, 1] @ replicate 47 0"

definition sample_elf64 :: "byte list" where
  "sample_elf64 = [0x7F, 0x45, 0x4C, 0x46, 2] @ replicate 59 0"

definition sample_x86_elf32 :: "byte list" where
  "sample_x86_elf32 =
     [0x7F, 0x45, 0x4C, 0x46, 1] @ replicate 13 0 @ [0x3E, 0] @ replicate 32 0"

text \<open>A 64-byte ELF64 header with a valid magic and machine 243 (\<^verbatim>\<open>EM_RISCV\<close>).\<close>

definition sample_riscv_elf64 :: "byte list" where
  "sample_riscv_elf64 =
     [0x7F, 0x45, 0x4C, 0x46, 2] @ replicate 13 0 @ [0xF3, 0] @ replicate 44 0"

section \<open>Facts about the ELF header\<close>

lemma sizeof_Header_4: "sizeof_Header 4 = 52"
  by (simp add: sizeof_Header_def struct_sizeof_def Header_fields_def EI_NIDENT_def align_up_def)

lemma sizeof_Header_8: "sizeof_Header 8 = 64"
  by (simp add: sizeof_Header_def struct_sizeof_def Header_fields_def EI_NIDENT_def align_up_def)

lemma sizeof_Header_16: "sizeof_Header 16 = 96"
  by (simp add: sizeof_Header_def struct_sizeof_def Header_fields_def EI_NIDENT_def align_up_def)

lemma e_machine_offset_18: "e_machine_offset = 18"
  by (simp add: e_machine_offset_def Header_fields_def EI_NIDENT_def align_up_def)

lemma validate_4_8:
  assumes "W = 4 \<or> W = 8"
  shows "validate W binary \<longleftrightarrow>
     (sizeof_Header W \<le> length binary \<and>
      binary ! 0 = 0x7F \<and> binary ! 1 = of_char CHR ''E'' \<and>
      binary ! 2 = of_char CHR ''L'' \<and> binary ! 3 = of_char CHR ''F'' \<and>
      binary ! EI_CLASS = of_nat (if W = 4 then ELFCLASS32 else ELFCLASS64))"
  using assms by (auto simp: validate_def e_ident_def)

lemma elf_offset_eq:
  assumes "length m_binary < 2 ^ 64"
  shows "elf_offset m_binary sizeof_T ofs =
           (if unat ofs + unat sizeof_T < length m_binary then Inr ofs else Inl INVALID_PROGRAM)"
proof -
  have len: "unat (of_nat (length m_binary) :: size_t) = length m_binary"
    using assms by (simp add: unat_of_nat)
  show ?thesis
  proof (cases "unat ofs + unat sizeof_T < 2 ^ 64")
    case True
    then have "ofs \<le> ofs + sizeof_T"
      using no_olen_add_nat [of ofs sizeof_T] by simp
    moreover have "unat (ofs + sizeof_T) = unat ofs + unat sizeof_T"
      using True unat_add_lem [of ofs sizeof_T] by simp
    ultimately show ?thesis
      by (simp add: elf_offset_def word_less_nat_alt len)
  next
    case False
    then have "\<not> ofs \<le> ofs + sizeof_T"
      using no_olen_add_nat [of ofs sizeof_T] by simp
    with False assms show ?thesis by (simp add: elf_offset_def)
  qed
qed

lemma sample_lengths:
  "length sample_elf32 = 52" "length sample_elf64 = 64" "length sample_x86_elf32 = 52"
  by (simp_all add: sample_elf32_def sample_elf64_def sample_x86_elf32_def)

section \<open>ELF validation\<close>

text \<open>
  \<^verbatim>\<open>Elf<W>::validate\<close> itself never reads \<^verbatim>\<open>e_machine\<close>: writing any two bytes over the
  field leaves its verdict as it was. The machine is the loader's to check.
\<close>

lemma validate_ignores_machine:
  "validate W (binary[e_machine_offset := lo, e_machine_offset + 1 := hi]) = validate W binary"
  by (simp add: validate_def e_ident_def e_machine_offset_18 EI_CLASS_def)

lemma elf_header_short:
  assumes "W = 4 \<or> W = 8" and "length binary < sizeof_Header W"
  shows "elf_header W binary = Inl INVALID_PROGRAM"
proof -
  from assms have "length binary < 64"
    by (auto simp: sizeof_Header_4 sizeof_Header_8)
  then have small: "length binary < 2 ^ 64" by simp
  from assms have "unat (of_nat (sizeof_Header W) :: size_t) = sizeof_Header W"
    by (auto simp: sizeof_Header_4 sizeof_Header_8)
  with assms(2) show ?thesis
    by (simp add: elf_header_def elf_offset_eq [OF small])
qed

lemma sample_riscv_length: "length sample_riscv_elf64 = 64"
  by (simp add: sample_riscv_elf64_def)

text \<open>
  Claim C1. For every binary blob, the loader's check of the header rejects the blob
  with \<^verbatim>\<open>INVALID_PROGRAM\<close> when its \<^verbatim>\<open>e_machine\<close> field differs from \<^verbatim>\<open>EM_RISCV\<close> (243), and
  likewise when the blob is shorter than the ELF header; a blob that short is also
  rejected by \<^verbatim>\<open>Elf<W>::validate\<close> and, for \<open>W\<close> 4 or 8, by \<^verbatim>\<open>elf_header()\<close>. A header is
  accepted for loading exactly when it is long enough, valid and of machine 243.
\<close>

theorem loader_rejects_machine_and_short:
  "(e_machine binary \<noteq> of_nat EM_RISCV \<or> length binary < sizeof_Header W \<longrightarrow>
      binary_loader_header W binary = Inl INVALID_PROGRAM) \<and>
   (length binary < sizeof_Header W \<longrightarrow> \<not> validate W binary) \<and>
   ((W = 4 \<or> W = 8) \<and> length binary < sizeof_Header W \<longrightarrow>
      elf_header W binary = Inl INVALID_PROGRAM) \<and>
   (binary_loader_header W binary = Inr () \<longleftrightarrow>
      sizeof_Header W \<le> length binary \<and> validate W binary \<and> e_machine binary = of_nat EM_RISCV)"
  by (auto simp: binary_loader_header_def validate_def elf_header_short)

text \<open>
  The ELF32 header of machine 62 passes \<^verbatim>\<open>validate\<close> and is rejected by the loader; the
  ELF32 sample cut to 51 bytes is rejected by all three; the ELF64 header of machine 243
  is accepted.
\<close>

theorem loader_rejects_machine_and_short_witness:
  "e_machine sample_x86_elf32 = 0x3E \<and> e_machine sample_x86_elf32 \<noteq> of_nat EM_RISCV \<and>
   validate 4 sample_x86_elf32 \<and>
   binary_loader_header 4 sample_x86_elf32 = Inl INVALID_PROGRAM \<and>
   length (take 51 sample_elf32) < sizeof_Header 4 \<and>
   binary_loader_header 4 (take 51 sample_elf32) = Inl INVALID_PROGRAM \<and>
   \<not> validate 4 (take 51 sample_elf32) \<and>
   elf_header 4 (take 51 sample_elf32) = Inl INVALID_PROGRAM \<and>
   e_machine sample_riscv_elf64 = of_nat EM_RISCV \<and>
   binary_loader_header 8 sample_riscv_elf64 = Inr ()"
proof -
  have m: "e_machine sample_x86_elf32 = 0x3E" "e_machine sample_riscv_elf64 = of_nat EM_RISCV"
    by (simp_all add: e_machine_def e_machine_offset_18 sample_x86_elf32_def
        sample_riscv_elf64_def EM_RISCV_def nth_append)
  have v: "validate 4 sample_x86_elf32" "validate 8 sample_riscv_elf64"
    by (simp_all add: validate_def sample_x86_elf32_def sample_riscv_elf64_def sizeof_Header_4
        sizeof_Header_8 e_ident_def EI_CLASS_def ELFCLASS32_def ELFCLASS64_def)
  have l: "length (take 51 sample_elf32) < sizeof_Header 4"
      "sizeof_Header 8 \<le> length sample_riscv_elf64"
    by (simp_all add: sample_lengths sizeof_Header_4 sizeof_Header_8 sample_riscv_length)
  have ne: "e_machine sample_x86_elf32 \<noteq> of_nat EM_RISCV"
    using m by (simp add: EM_RISCV_def)
  from loader_rejects_machine_and_short [of sample_x86_elf32 4] ne
  have a: "binary_loader_header 4 sample_x86_elf32 = Inl INVALID_PROGRAM" by blast
  from loader_rejects_machine_and_short [of "take 51 sample_elf32" 4] l
  have b: "binary_loader_header 4 (take 51 sample_elf32) = Inl INVALID_PROGRAM"
      "\<not> validate 4 (take 51 sample_elf32)"
      "elf_header 4 (take 51 sample_elf32) = Inl INVALID_PROGRAM"
    by blast+
  from loader_rejects_machine_and_short [of sample_riscv_elf64 8] m v l
  have c: "binary_loader_header 8 sample_riscv_elf64 = Inr ()" by blast
  from m ne v l a b c show ?thesis by simp
qed

text \<open>
  Claim C6. For \<open>W\<close> 4 or 8, \<^verbatim>\<open>Elf<W>::validate\<close> returns true exactly when the blob is
  at least as large as the ELF header, its first four bytes are \<^verbatim>\<open>0x7F 'E' 'L' 'F'\<close>, and
  byte 4 is \<^verbatim>\<open>ELFCLASS32\<close> for \<open>W = 4\<close>, \<^verbatim>\<open>ELFCLASS64\<close> for \<open>W = 8\<close>.
\<close>

theorem validate_accepts_iff:
  assumes "W = 4 \<or> W = 8"
  shows "validate W binary \<longleftrightarrow>
     (sizeof_Header W \<le> length binary \<and>
      binary ! 0 = 0x7F \<and> binary ! 1 = of_char CHR ''E'' \<and>
      binary ! 2 = of_char CHR ''L'' \<and> binary ! 3 = of_char CHR ''F'' \<and>
      binary ! EI_CLASS = of_nat (if W = 4 then ELFCLASS32 else ELFCLASS64))"
  using assms by (rule validate_4_8)

text \<open>
  The ELF32 sample is valid for \<open>W = 4\<close> and not for \<open>W = 8\<close>, the ELF64 sample is valid
  for \<open>W = 8\<close>, and the ELF32 sample cut to 51 bytes is too short.
\<close>

theorem validate_accepts_iff_witness:
  "((4::nat) = 4 \<or> (4::nat) = 8) \<and> ((8::nat) = 4 \<or> (8::nat) = 8) \<and>
   validate 4 sample_elf32 \<and> validate 8 sample_elf64 \<and>
   \<not> validate 8 sample_elf32 \<and> \<not> validate 4 (take 51 sample_elf32)"
  using validate_accepts_iff [of 4 sample_elf32] validate_accepts_iff [of 8 sample_elf64]
    validate_accepts_iff [of 8 sample_elf32] validate_accepts_iff [of 4 "take 51 sample_elf32"]
  by (simp add: sizeof_Header_4 sizeof_Header_8 sample_lengths)
    (simp add: sample_elf32_def sample_elf64_def EI_CLASS_def ELFCLASS32_def ELFCLASS64_def)

section \<open>Offsets into the binary\<close>

text \<open>
  Claim C2. \<^verbatim>\<open>elf_offset<T>(ofs)\<close> returns a pointer into the binary (the one at \<open>ofs\<close>)
  only when \<^verbatim>\<open>ofs + sizeof(T)\<close> does not wrap around and lies within the binary's size, and
  then every byte of the structure lies inside the binary; in every other case it raises
  \<^verbatim>\<open>INVALID_PROGRAM\<close>. Those are its only two outcomes.
\<close>

theorem elf_offset_within_binary:
  assumes "length m_binary < 2 ^ 64"
  shows "(\<forall>p. elf_offset m_binary sizeof_T ofs = Inr p \<longrightarrow>
            p = ofs \<and> unat ofs + unat sizeof_T < 2 ^ 64 \<and>
            unat ofs + unat sizeof_T \<le> length m_binary \<and>
            (\<forall>i \<in> set (structure_bytes sizeof_T ofs). i < length m_binary)) \<and>
         (\<not> (unat ofs + unat sizeof_T < 2 ^ 64 \<and> unat ofs + unat sizeof_T \<le> length m_binary) \<longrightarrow>
            elf_offset m_binary sizeof_T ofs = Inl INVALID_PROGRAM) \<and>
         (elf_offset m_binary sizeof_T ofs = Inr ofs \<or>
          elf_offset m_binary sizeof_T ofs = Inl INVALID_PROGRAM)"
  using assms by (auto simp: elf_offset_eq structure_bytes_def)

text \<open>
  In the 64-byte sample: 16 bytes at offset 8 are handed out and lie inside; 16 bytes at
  offset 60 run past the end, and at offset \<open>2 ^ 64 - 8\<close> the sum wraps around.
\<close>

theorem elf_offset_within_binary_witness:
  "length sample_elf64 < 2 ^ 64 \<and>
   elf_offset sample_elf64 16 8 = Inr 8 \<and>
   list_all (\<lambda>i. i < length sample_elf64) (structure_bytes 16 8) \<and>
   elf_offset sample_elf64 16 60 = Inl INVALID_PROGRAM \<and>
   elf_offset sample_elf64 16 0xFFFFFFFFFFFFFFF8 = Inl INVALID_PROGRAM"
  using elf_offset_within_binary [of sample_elf64 16 8]
    elf_offset_within_binary [of sample_elf64 16 60]
    elf_offset_within_binary [of sample_elf64 16 "0xFFFFFFFFFFFFFFF8"]
  by (simp add: sample_lengths list_all_iff elf_offset_def)

text \<open>
  Claim C10. A binary of exactly \<^verbatim>\<open>sizeof(Elf::Header)\<close> bytes with valid magic and class
  bytes passes \<^verbatim>\<open>Elf<W>::validate\<close>, yet \<^verbatim>\<open>elf_header()\<close> raises \<^verbatim>\<open>INVALID_PROGRAM\<close> for it:
  \<^verbatim>\<open>elf_offset\<close> wants \<^verbatim>\<open>ofs + sizeof(T)\<close> strictly below the binary's size, so it rejects
  every structure that ends exactly at the binary's last byte.
\<close>

theorem header_sized_binary_rejected:
  "((W = 4 \<or> W = 8) \<and> length binary = sizeof_Header W \<and>
    binary ! 0 = 0x7F \<and> binary ! 1 = of_char CHR ''E'' \<and>
    binary ! 2 = of_char CHR ''L'' \<and> binary ! 3 = of_char CHR ''F'' \<and>
    binary ! EI_CLASS = of_nat (if W = 4 then ELFCLASS32 else ELFCLASS64) \<longrightarrow>
      validate W binary \<and> elf_header W binary = Inl INVALID_PROGRAM) \<and>
   (length m_binary < 2 ^ 64 \<and> unat ofs + unat sizeof_T = length m_binary \<longrightarrow>
      elf_offset m_binary sizeof_T ofs = Inl INVALID_PROGRAM)"
proof (intro conjI impI)
  assume h: "(W = 4 \<or> W = 8) \<and> length binary = sizeof_Header W \<and>
    binary ! 0 = 0x7F \<and> binary ! 1 = of_char CHR ''E'' \<and>
    binary ! 2 = of_char CHR ''L'' \<and> binary ! 3 = of_char CHR ''F'' \<and>
    binary ! EI_CLASS = of_nat (if W = 4 then ELFCLASS32 else ELFCLASS64)"
  then show "validate W binary"
    by (simp add: validate_4_8)
  from h have "length binary = 52 \<or> length binary = 64"
    by (auto simp: sizeof_Header_4 sizeof_Header_8)
  then have small: "length binary < 2 ^ 64" by auto
  from h have "unat (of_nat (sizeof_Header W) :: size_t) = length binary"
    by (auto simp: sizeof_Header_4 sizeof_Header_8)
  then show "elf_header W binary = Inl INVALID_PROGRAM"
    by (simp add: elf_header_def elf_offset_eq [OF small])
next
  assume "length m_binary < 2 ^ 64 \<and> unat ofs + unat sizeof_T = length m_binary"
  then show "elf_offset m_binary sizeof_T ofs = Inl INVALID_PROGRAM"
    by (simp add: elf_offset_eq)
qed

text \<open>
  The 52-byte ELF32 header passes validation and its header cannot be fetched; neither
  can the 20 bytes at offset 32, which end at its last byte.
\<close>

theorem header_sized_binary_rejected_witness:
  "length sample_elf32 = sizeof_Header 4 \<and> validate 4 sample_elf32 \<and>
   elf_header 4 sample_elf32 = Inl INVALID_PROGRAM \<and>
   unat (32 :: size_t) + unat (20 :: size_t) = length sample_elf32 \<and>
   elf_offset sample_elf32 20 32 = Inl INVALID_PROGRAM"
  using header_sized_binary_rejected [of 4 sample_elf32 sample_elf32 32 20]
  by (simp add: sizeof_Header_4 sample_lengths)
    (simp add: sample_elf32_def EI_CLASS_def ELFCLASS32_def)

section \<open>Facts about the CPU\<close>

lemma and_3_dvd: "(x AND 3 = 0) = (4 dvd unat (x::'w::len word))"
  using and_mask_dvd_nat [of 2 x] by (simp add: mask_eq_exp_minus_1)

lemma and_1_dvd: "(x AND 1 = 0) = (2 dvd unat (x::'w::len word))"
  using and_mask_dvd_nat [of 1 x] by (simp add: mask_eq_exp_minus_1)

lemma jump_eq:
  "jump cfg dst c =
     (if (if compressed_enabled cfg then 2 else 4) dvd unat dst
      then Returns (c\<lparr>pc := dst\<rparr>)
      else Throws MISALIGNED_INSTRUCTION (c\<lparr>pc := dst\<rparr>))"
  by (simp add: jump_def Let_def trigger_exception_def and_3_dvd and_1_dvd)

lemma change_page_numeral:
  "change_page (numeral k) cfg ext n s = change_page (Suc (pred_numeral k)) cfg ext n s"
  by (simp only: numeral_eq_Suc)

lemma check_page_numeral:
  "check_page (numeral k) cfg ext s = check_page (Suc (pred_numeral k)) cfg ext s"
  by (simp only: numeral_eq_Suc)

lemmas sample_defs =
  sample_config_def redirecting_def sample_machine_def sample_cpu_def sample_memory_def
  sample_pages_def

lemmas run_defs =
  change_page_numeral Let_def pc_pageno_def Page_SHIFT_def trigger_exception_def
  get_exec_pageno_def get_pageno_def cache_current_page_def

text \<open>
  Claim C3. \<^verbatim>\<open>jump(dst)\<close> raises \<^verbatim>\<open>MISALIGNED_INSTRUCTION\<close> exactly when \<open>dst\<close> is not a
  multiple of 4 (compressed instructions disabled) or not a multiple of 2 (compressed
  instructions enabled); for an aligned target it raises nothing and returns with the PC
  at \<open>dst\<close>.
\<close>

theorem jump_misaligned_iff:
  "(thrown (jump cfg dst c) = Some MISALIGNED_INSTRUCTION \<longleftrightarrow>
      \<not> (if compressed_enabled cfg then 2 else 4) dvd unat dst) \<and>
   ((if compressed_enabled cfg then 2 else 4) dvd unat dst \<longrightarrow>
      thrown (jump cfg dst c) = None \<and> jump cfg dst c = Returns (c\<lparr>pc := dst\<rparr>))"
  by (simp add: jump_eq)

text \<open>
  With compressed instructions \<open>0x7002\<close> is a target and \<open>0x7001\<close> is not; without them
  \<open>0x7004\<close> is a target and \<open>0x7002\<close> is not.
\<close>

theorem jump_misaligned_iff_witness:
  "thrown (jump sample_config 0x7002 sample_cpu) = None \<and>
   thrown (jump sample_config 0x7001 sample_cpu) = Some MISALIGNED_INSTRUCTION \<and>
   thrown (jump (sample_config\<lparr>compressed_enabled := False\<rparr>) 0x7004 sample_cpu) = None \<and>
   thrown (jump (sample_config\<lparr>compressed_enabled := False\<rparr>) 0x7002 sample_cpu)
     = Some MISALIGNED_INSTRUCTION"
  using jump_misaligned_iff [of sample_config "0x7002" sample_cpu]
    jump_misaligned_iff [of sample_config "0x7001" sample_cpu]
    jump_misaligned_iff [of "sample_config\<lparr>compressed_enabled := False\<rparr>" "0x7004" sample_cpu]
    jump_misaligned_iff [of "sample_config\<lparr>compressed_enabled := False\<rparr>" "0x7002" sample_cpu]
  by (simp add: sample_config_def)

text \<open>
  Claim C9. When \<^verbatim>\<open>jump(dst)\<close> raises \<^verbatim>\<open>MISALIGNED_INSTRUCTION\<close> for a misaligned \<open>dst\<close>,
  the PC has already been set to \<open>dst\<close>: the state left behind is the old one with the PC
  at \<open>dst\<close>, which differs from the old one unless the PC was \<open>dst\<close> before.
\<close>

theorem jump_misaligned_keeps_target:
  "(\<not> (if compressed_enabled cfg then 2 else 4) dvd unat dst \<longrightarrow>
      jump cfg dst c = Throws MISALIGNED_INSTRUCTION (c\<lparr>pc := dst\<rparr>)) \<and>
   (\<forall>e c'. jump cfg dst c = Throws e c' \<longrightarrow>
      e = MISALIGNED_INSTRUCTION \<and> pc c' = dst \<and> c' = c\<lparr>pc := dst\<rparr> \<and>
      (pc c \<noteq> dst \<longrightarrow> c' \<noteq> c))"
  by (auto simp: jump_eq dest: arg_cong [where f = pc])

text \<open>
  Without compressed instructions, jumping from \<open>0x5004\<close> to \<open>0x7002\<close> throws and leaves
  the PC at \<open>0x7002\<close>.
\<close>

theorem jump_misaligned_keeps_target_witness:
  "jump (sample_config\<lparr>compressed_enabled := False\<rparr>) 0x7002 sample_cpu
     = Throws MISALIGNED_INSTRUCTION (sample_cpu\<lparr>pc := 0x7002\<rparr>) \<and>
   pc (state_of (jump (sample_config\<lparr>compressed_enabled := False\<rparr>) 0x7002 sample_cpu)) = 0x7002 \<and>
   pc sample_cpu = 0x5004 \<and>
   state_of (jump (sample_config\<lparr>compressed_enabled := False\<rparr>) 0x7002 sample_cpu) \<noteq> sample_cpu"
proof -
  let ?r = "jump (sample_config\<lparr>compressed_enabled := False\<rparr>) 0x7002 sample_cpu"
  have pc0: "pc sample_cpu = 0x5004" by (simp add: sample_cpu_def)
  have mis: "\<not> (if compressed_enabled (sample_config\<lparr>compressed_enabled := False\<rparr>) then 2 else 4)
      dvd unat (0x7002 :: 32 word)"
    by (simp add: sample_config_def)
  from jump_misaligned_keeps_target [of "sample_config\<lparr>compressed_enabled := False\<rparr>" "0x7002" sample_cpu] mis
  have r: "?r = Throws MISALIGNED_INSTRUCTION (sample_cpu\<lparr>pc := 0x7002\<rparr>)"
    and "\<forall>e c'. ?r = Throws e c' \<longrightarrow> (pc sample_cpu \<noteq> 0x7002 \<longrightarrow> c' \<noteq> sample_cpu)"
    by blast+
  with pc0 have "state_of ?r \<noteq> sample_cpu" by simp
  with r pc0 show ?thesis by simp
qed

text \<open>
  Claim C8. In every memory state \<^verbatim>\<open>mmap_start()\<close> returns \<^verbatim>\<open>heap_address() + BRK_MAX\<close>, the
  initial heap address plus the constant, computed in \<^verbatim>\<open>address_t\<close>; when that sum fits
  the address width, the mmap region begins \<^verbatim>\<open>BRK_MAX\<close> bytes above the heap address.
\<close>

theorem mmap_start_is_heap_plus_brk:
  "mmap_start BRK_MAX mem = heap_address mem + BRK_MAX \<and>
   heap_address mem = m_heap_address mem \<and>
   (unat (heap_address mem) + unat BRK_MAX < 2 ^ LENGTH('w) \<longrightarrow>
     unat (mmap_start BRK_MAX mem) = unat (heap_address mem) + unat (BRK_MAX :: 'w::len word))"
  by (simp add: mmap_start_def heap_address_def unat_add_lem)

text \<open>With the heap at \<open>0x20000\<close> and 16 MiB of brk memory, mmap starts at \<open>0x1020000\<close>.\<close>

theorem mmap_start_is_heap_plus_brk_witness:
  "unat (heap_address sample_memory) + unat (0x1000000 :: 32 word) < 2 ^ LENGTH(32) \<and>
   heap_address sample_memory = 0x20000 \<and>
   mmap_start 0x1000000 sample_memory = 0x1020000 \<and>
   unat (mmap_start 0x1000000 sample_memory) = unat (heap_address sample_memory) + 0x1000000"
  using mmap_start_is_heap_plus_brk [of "0x1000000" sample_memory]
  by (simp add: heap_address_def sample_memory_def)

text \<open>
  Claim C7. \<^verbatim>\<open>reset_stack_pointer\<close> sets general register \<^verbatim>\<open>SP\<close> (index 2) to
  \<^verbatim>\<open>stack_initial()\<close>, the stack address of the memory: the state it leaves is the old one
  with that one register replaced, so every other register, the PC, the current page,
  the page cache, its counter and the memory are as before. On construction, the
  initialisation of the CPU leaves \<^verbatim>\<open>SP\<close> at \<^verbatim>\<open>stack_initial()\<close> and every other register at
  zero, whatever the CPU's default-initialised members are.
\<close>

theorem stack_pointer_is_stack_initial:
  "REG_SP = 2 \<and>
   reg (cpu (reset_stack_pointer s)) REG_SP = stack_initial (memory s) \<and>
   stack_initial (memory s) = m_stack_address (memory s) \<and>
   (\<forall>i. i \<noteq> REG_SP \<longrightarrow> reg (cpu (reset_stack_pointer s)) i = reg (cpu s) i) \<and>
   pc (cpu (reset_stack_pointer s)) = pc (cpu s) \<and>
   m_current_page (cpu (reset_stack_pointer s)) = m_current_page (cpu s) \<and>
   m_page_cache (cpu (reset_stack_pointer s)) = m_page_cache (cpu s) \<and>
   m_cache_iterator (cpu (reset_stack_pointer s)) = m_cache_iterator (cpu s) \<and>
   memory (reset_stack_pointer s) = memory s \<and>
   reset_stack_pointer s
     = s\<lparr>cpu := (cpu s)\<lparr>reg := (reg (cpu s))(2 := m_stack_address (memory s))\<rparr>\<rparr> \<and>
   reg (cpu (Machine_init_cpu defaults s)) REG_SP = stack_initial (memory s) \<and>
   (\<forall>i. i \<noteq> REG_SP \<longrightarrow> reg (cpu (Machine_init_cpu defaults s)) i = 0) \<and>
   memory (Machine_init_cpu defaults s) = memory s"
  by (simp add: reset_stack_pointer_def REG_SP_def stack_initial_def Machine_init_cpu_def)

text \<open>
  On the sample machine, whose stack address is \<open>0x40000000\<close>: register 2 holds it after
  \<^verbatim>\<open>reset_stack_pointer\<close>, register 10 and the page cache are untouched; after the
  initialisation on construction register 2 holds it and register 10 is zero.
\<close>

theorem stack_pointer_is_stack_initial_witness:
  "reg (cpu (reset_stack_pointer sample_machine)) 2 = 0x40000000 \<and>
   stack_initial (memory sample_machine) = 0x40000000 \<and>
   reg (cpu (reset_stack_pointer sample_machine)) 10 = reg (cpu sample_machine) 10 \<and>
   m_page_cache (cpu (reset_stack_pointer sample_machine)) = m_page_cache sample_cpu \<and>
   reg (cpu (Machine_init_cpu zero_cpu sample_machine)) 2 = 0x40000000 \<and>
   reg (cpu (Machine_init_cpu zero_cpu sample_machine)) 10 = 0"
proof -
  note t = stack_pointer_is_stack_initial [of sample_machine zero_cpu]
  have stack: "stack_initial (memory sample_machine) = 0x40000000"
    by (simp add: stack_initial_def sample_machine_def sample_memory_def)
  have c: "cpu sample_machine = sample_cpu" by (simp add: sample_machine_def)
  from t have sp: "REG_SP = 2" by (rule conjunct1)
  from t have "\<forall>i. i \<noteq> REG_SP \<longrightarrow>
      reg (cpu (reset_stack_pointer sample_machine)) i = reg (cpu sample_machine) i"
    by (elim conjE)
  then have r10: "reg (cpu (reset_stack_pointer sample_machine)) 10 = reg (cpu sample_machine) 10"
    using sp by simp
  from t have "\<forall>i. i \<noteq> REG_SP \<longrightarrow> reg (cpu (Machine_init_cpu zero_cpu sample_machine)) i = 0"
    by (elim conjE)
  then have i10: "reg (cpu (Machine_init_cpu zero_cpu sample_machine)) 10 = 0"
    using sp by simp
  from t have r2: "reg (cpu (reset_stack_pointer sample_machine)) REG_SP
      = stack_initial (memory sample_machine)"
    by (elim conjE)
  from t have i2: "reg (cpu (Machine_init_cpu zero_cpu sample_machine)) REG_SP
      = stack_initial (memory sample_machine)"
    by (elim conjE)
  from t have pcache: "m_page_cache (cpu (reset_stack_pointer sample_machine))
      = m_page_cache (cpu sample_machine)"
    by (elim conjE)
  from r10 i10 r2 i2 pcache show ?thesis using sp stack c by simp
qed

section \<open>Changing the execute page\<close>

lemma find_pageno: "find (\<lambda>cache. pageno cache = n) xs = Some c \<Longrightarrow> pageno c = n"
  by (induction xs) (auto split: if_splits)

lemma riscv_validate_returns_exec:
  "riscv_validate_current_page fuel cfg ext s = Some (Returns s') \<Longrightarrow>
   attr_exec (page_at (memory s') (page (m_current_page (cpu s'))))"
  by (auto simp: Let_def trigger_exception_def create_decoder_cache_def
      split: option.splits outcome.splits if_splits)

lemma change_page_returns_exec:
  assumes "change_page fuel cfg ext n s = Some (Returns s')"
  shows "attr_exec (page_at (memory s') (page (m_current_page (cpu s'))))"
proof (cases fuel)
  case 0
  with assms show ?thesis by simp
next
  case (Suc k)
  with assms show ?thesis
    by (auto simp: Let_def simp del: riscv_validate_current_page.simps
        split: option.splits sum.splits if_splits dest: riscv_validate_returns_exec)
qed

lemma riscv_validate_no_trap:
  assumes "\<not> attr_exec (page_at (memory s) (page (m_current_page (cpu s))))"
    and "execute_traps_enabled cfg \<longrightarrow>
           \<not> has_trap (page_at (memory s) (page (m_current_page (cpu s))))"
  shows "riscv_validate_current_page fuel cfg ext s
           = Some (Throws EXECUTION_SPACE_PROTECTION_FAULT s)"
  using assms by (simp add: Let_def trigger_exception_def)

lemma change_page_non_exec:
  assumes "resolved_page cfg ext n s = Inr p"
    and "\<not> attr_exec (page_at (memory s) p)"
    and "execute_traps_enabled cfg \<longrightarrow> \<not> has_trap (page_at (memory s) p)"
  shows "map_option thrown (change_page (Suc fuel) cfg ext n s)
           = Some (Some EXECUTION_SPACE_PROTECTION_FAULT)"
  using assms
  by (auto simp: resolved_page_def Let_def riscv_validate_no_trap cache_current_page_def
      simp del: riscv_validate_current_page.simps split: option.splits if_splits)

lemma change_page_propagates:
  assumes "resolved_page cfg ext n s = Inl e"
  shows "map_option thrown (change_page (Suc fuel) cfg ext n s) = Some (Some e)"
  using assms
  by (auto simp: resolved_page_def Let_def
      simp del: riscv_validate_current_page.simps split: option.splits if_splits)

lemma resolved_page_spec:
  assumes "mem_get_exec_pageno ext = get_exec_pageno d"
    and "\<not> attr_exec (page_at (memory s) (page_of_pageno cfg d n s))"
  shows "resolved_page cfg ext n s = Inr (page_of_pageno cfg d n s) \<or>
         resolved_page cfg ext n s = Inl EXECUTION_SPACE_PROTECTION_FAULT"
  using assms
  by (auto simp: resolved_page_def page_of_pageno_def get_exec_pageno_def Let_def
      split: option.splits if_splits)

lemma check_page_mono:
  assumes IH: "\<And>n s r. change_page k cfg ext n s = Some r \<Longrightarrow> change_page (Suc k) cfg ext n s = Some r"
    and run: "check_page k cfg ext s = Some r"
  shows "check_page (Suc k) cfg ext s = Some r"
  using run
  by (auto simp: Let_def simp del: change_page.simps split: if_splits outcome.splits intro: IH)

lemma riscv_validate_mono:
  assumes IH: "\<And>n s r. change_page k cfg ext n s = Some r \<Longrightarrow> change_page (Suc k) cfg ext n s = Some r"
    and run: "riscv_validate_current_page k cfg ext s = Some r"
  shows "riscv_validate_current_page (Suc k) cfg ext s = Some r"
proof (cases "execute_traps_enabled cfg")
  case False
  with run show ?thesis by simp
next
  case True
  with run obtain x where x: "check_page k cfg ext s = Some x"
    by (auto simp del: check_page.simps split: option.splits)
  with IH have "check_page (Suc k) cfg ext s = Some x"
    by (rule check_page_mono)
  with x True run show ?thesis
    by (simp del: check_page.simps)
qed

lemma change_page_mono:
  "change_page fuel cfg ext n s = Some r \<Longrightarrow> change_page (Suc fuel) cfg ext n s = Some r"
proof (induction fuel arbitrary: n s r)
  case 0
  then show ?case by simp
next
  case (Suc k)
  have v: "riscv_validate_current_page (Suc k) cfg ext t = Some r"
    if "riscv_validate_current_page k cfg ext t = Some r" for t
    using Suc.IH that by (rule riscv_validate_mono)
  from Suc.prems show ?case
    apply (subst change_page.simps)
    apply (subst (asm) change_page.simps)
    apply (auto simp: Let_def simp del: change_page.simps riscv_validate_current_page.simps
        split: option.splits sum.splits if_splits intro: v)
    done
qed

lemma check_page_more_fuel:
  "check_page fuel cfg ext s = Some r \<Longrightarrow> check_page (Suc fuel) cfg ext s = Some r"
  using change_page_mono by (rule check_page_mono)

lemma change_page_total_no_trap:
  assumes "\<And>p. resolved_page cfg ext n s = Inr p \<Longrightarrow> execute_traps_enabled cfg
             \<Longrightarrow> \<not> has_trap (page_at (memory s) p)"
  shows "change_page (Suc fuel) cfg ext n s \<noteq> None"
  using assms
  by (auto simp: resolved_page_def Let_def trigger_exception_def cache_current_page_def
      split: option.splits sum.splits if_splits)

text \<open>
  Claim C4, as the code has it. The exec permission is checked on every path through
  \<^verbatim>\<open>change_page\<close>, page-cache hits included: whenever \<^verbatim>\<open>change_page\<close> returns, the page left
  as the current execute page has the exec attribute. When the page that \<open>n\<close> resolves to
  (the cached entry on a hit, the page \<^verbatim>\<open>get_exec_pageno\<close> returns on a miss) lacks exec
  and no execute trap stands on it (execute traps are compiled out, or the page has no
  trap), \<^verbatim>\<open>change_page(n)\<close> raises \<^verbatim>\<open>EXECUTION_SPACE_PROTECTION_FAULT\<close>; an exception of
  \<^verbatim>\<open>get_exec_pageno\<close> propagates, and with the specification's \<^verbatim>\<open>get_exec_pageno\<close> that
  is the same fault. A page with an execute trap has its callback run first, which may
  throw or move the PC elsewhere. An outcome reached within a bound on the depth of the
  calls stays the outcome with a larger bound.
\<close>

theorem change_page_checks_exec:
  "(\<forall>s'. change_page fuel cfg ext n s = Some (Returns s') \<longrightarrow>
      attr_exec (page_at (memory s') (page (m_current_page (cpu s'))))) \<and>
   (\<forall>p. resolved_page cfg ext n s = Inr p \<and> \<not> attr_exec (page_at (memory s) p) \<and>
        (execute_traps_enabled cfg \<longrightarrow> \<not> has_trap (page_at (memory s) p)) \<longrightarrow>
      map_option thrown (change_page (Suc fuel) cfg ext n s)
        = Some (Some EXECUTION_SPACE_PROTECTION_FAULT)) \<and>
   (\<forall>e. resolved_page cfg ext n s = Inl e \<longrightarrow>
      map_option thrown (change_page (Suc fuel) cfg ext n s) = Some (Some e)) \<and>
   (\<forall>d. mem_get_exec_pageno ext = get_exec_pageno d \<and>
        \<not> attr_exec (page_at (memory s) (page_of_pageno cfg d n s)) \<and>
        (execute_traps_enabled cfg \<longrightarrow>
           \<not> has_trap (page_at (memory s) (page_of_pageno cfg d n s))) \<longrightarrow>
      map_option thrown (change_page (Suc fuel) cfg ext n s)
        = Some (Some EXECUTION_SPACE_PROTECTION_FAULT)) \<and>
   (\<forall>r. change_page fuel cfg ext n s = Some r \<longrightarrow>
      change_page (Suc fuel) cfg ext n s = Some r)"
proof (intro conjI allI impI)
  fix r assume "change_page fuel cfg ext n s = Some r"
  then show "change_page (Suc fuel) cfg ext n s = Some r"
    by (rule change_page_mono)
next
  fix s' assume "change_page fuel cfg ext n s = Some (Returns s')"
  then show "attr_exec (page_at (memory s') (page (m_current_page (cpu s'))))"
    by (rule change_page_returns_exec)
next
  fix p
  assume "resolved_page cfg ext n s = Inr p \<and> \<not> attr_exec (page_at (memory s) p) \<and>
        (execute_traps_enabled cfg \<longrightarrow> \<not> has_trap (page_at (memory s) p))"
  then show "map_option thrown (change_page (Suc fuel) cfg ext n s)
        = Some (Some EXECUTION_SPACE_PROTECTION_FAULT)"
    by (elim conjE) (rule change_page_non_exec)
next
  fix e assume "resolved_page cfg ext n s = Inl e"
  then show "map_option thrown (change_page (Suc fuel) cfg ext n s) = Some (Some e)"
    by (rule change_page_propagates)
next
  fix d
  assume h: "mem_get_exec_pageno ext = get_exec_pageno d \<and>
        \<not> attr_exec (page_at (memory s) (page_of_pageno cfg d n s)) \<and>
        (execute_traps_enabled cfg \<longrightarrow>
           \<not> has_trap (page_at (memory s) (page_of_pageno cfg d n s)))"
  then consider "resolved_page cfg ext n s = Inr (page_of_pageno cfg d n s)"
    | "resolved_page cfg ext n s = Inl EXECUTION_SPACE_PROTECTION_FAULT"
    using resolved_page_spec by blast
  then show "map_option thrown (change_page (Suc fuel) cfg ext n s)
        = Some (Some EXECUTION_SPACE_PROTECTION_FAULT)"
  proof cases
    case 1
    with h show ?thesis by (elim conjE) (rule change_page_non_exec)
  next
    case 2
    then show ?thesis by (rule change_page_propagates)
  qed
qed

text \<open>
  On the sample machine: page number 9 is cached and page number 11 is not, neither has
  exec permission nor a trap, and \<^verbatim>\<open>change_page\<close> raises the fault for both, as it does for
  page number 13, which is not mapped; page number 7 is executable and becomes the
  current page, with more fuel as with less.
\<close>

theorem change_page_checks_exec_witness:
  "resolved_page sample_config redirecting 9 sample_machine = Inr 3 \<and>
   \<not> attr_exec (page_at (memory sample_machine) 3) \<and>
   \<not> has_trap (page_at (memory sample_machine) 3) \<and>
   map_option thrown (change_page 2 sample_config redirecting 9 sample_machine)
     = Some (Some EXECUTION_SPACE_PROTECTION_FAULT) \<and>
   mem_get_exec_pageno redirecting = get_exec_pageno 0 \<and>
   page_of_pageno sample_config 0 11 sample_machine = 4 \<and>
   \<not> attr_exec (page_at (memory sample_machine) 4) \<and>
   \<not> has_trap (page_at (memory sample_machine) 4) \<and>
   map_option thrown (change_page 2 sample_config redirecting 11 sample_machine)
     = Some (Some EXECUTION_SPACE_PROTECTION_FAULT) \<and>
   resolved_page sample_config redirecting 13 sample_machine
     = Inl EXECUTION_SPACE_PROTECTION_FAULT \<and>
   map_option thrown (change_page 2 sample_config redirecting 13 sample_machine)
     = Some (Some EXECUTION_SPACE_PROTECTION_FAULT) \<and>
   change_page 2 sample_config redirecting 7 sample_machine
     = Some (Returns (sample_machine\<lparr>cpu := sample_cpu\<lparr>m_current_page := \<lparr>page = 2, pageno = 7\<rparr>\<rparr>\<rparr>)) \<and>
   change_page 3 sample_config redirecting 7 sample_machine
     = Some (Returns (sample_machine\<lparr>cpu := sample_cpu\<lparr>m_current_page := \<lparr>page = 2, pageno = 7\<rparr>\<rparr>\<rparr>)) \<and>
   attr_exec (page_at (memory sample_machine) 2)"
proof -
  let ?s7 = "sample_machine\<lparr>cpu := sample_cpu\<lparr>m_current_page := \<lparr>page = 2, pageno = 7\<rparr>\<rparr>\<rparr>"
  have r9: "resolved_page sample_config redirecting 9 sample_machine = Inr 3"
    and r13: "resolved_page sample_config redirecting 13 sample_machine
       = Inl EXECUTION_SPACE_PROTECTION_FAULT"
    and p11: "page_of_pageno sample_config 0 11 sample_machine = 4"
    by (simp_all add: resolved_page_def page_of_pageno_def sample_defs run_defs)
  have g: "mem_get_exec_pageno redirecting = get_exec_pageno 0"
    by (simp add: redirecting_def)
  have a: "\<not> attr_exec (page_at (memory sample_machine) 3)"
      "\<not> has_trap (page_at (memory sample_machine) 3)"
      "\<not> attr_exec (page_at (memory sample_machine) 4)"
      "\<not> has_trap (page_at (memory sample_machine) 4)"
      "attr_exec (page_at (memory sample_machine) 2)"
    by (simp_all add: sample_defs)
  have r7: "change_page 2 sample_config redirecting 7 sample_machine = Some (Returns ?s7)"
    by (simp add: sample_defs run_defs)
  have two: "change_page 2 = change_page (Suc 1)" and three: "change_page 3 = change_page (Suc 2)"
    by (simp_all add: numeral_2_eq_2 numeral_3_eq_3)
  from change_page_checks_exec [of 1 sample_config redirecting 9 sample_machine] r9 a
  have t9: "map_option thrown (change_page 2 sample_config redirecting 9 sample_machine)
     = Some (Some EXECUTION_SPACE_PROTECTION_FAULT)"
    unfolding two by blast
  from change_page_checks_exec [of 1 sample_config redirecting 11 sample_machine] g a
  have t11: "map_option thrown (change_page 2 sample_config redirecting 11 sample_machine)
     = Some (Some EXECUTION_SPACE_PROTECTION_FAULT)"
    unfolding two p11 [symmetric] by blast
  from change_page_checks_exec [of 1 sample_config redirecting 13 sample_machine] r13
  have t13: "map_option thrown (change_page 2 sample_config redirecting 13 sample_machine)
     = Some (Some EXECUTION_SPACE_PROTECTION_FAULT)"
    unfolding two by blast
  from change_page_checks_exec [of 2 sample_config redirecting 7 sample_machine] r7
  have r7': "change_page 3 sample_config redirecting 7 sample_machine = Some (Returns ?s7)"
    unfolding three by blast
  from r9 r13 p11 g a r7 r7' t9 t11 t13 show ?thesis by simp
qed

text \<open>
  Claim C4 as stated fails where a trap intervenes: page number 5 of the sample machine
  has no exec permission, is in the page cache and has a trap whose callback moves the PC
  to page 7. \<^verbatim>\<open>change_page(5)\<close> returns without an exception, page 7 being current.
\<close>

theorem change_page_trap_redirects:
  "resolved_page sample_config redirecting 5 sample_machine = Inr 1 \<and>
   page_of_pageno sample_config 0 5 sample_machine = 1 \<and>
   \<not> attr_exec (page_at (memory sample_machine) 1) \<and>
   change_page 2 sample_config redirecting 5 sample_machine
     = Some (Returns (sample_machine\<lparr>cpu := sample_cpu
          \<lparr>pc := 0x7000, reg := (reg sample_cpu)(10 := 4, 11 := 5),
           m_current_page := \<lparr>page = 2, pageno = 7\<rparr>\<rparr>\<rparr>)) \<and>
   map_option thrown (change_page 2 sample_config redirecting 5 sample_machine) = Some None"
  by (simp add: resolved_page_def page_of_pageno_def sample_defs run_defs)

section \<open>Execute traps\<close>

lemma check_page_trap_eq:
  assumes "has_trap (page_at (memory s) (page (m_current_page (cpu s))))"
  shows "check_page fuel cfg ext s =
      (case page_trap ext (page (m_current_page (cpu s)))
              (pc (cpu s) - scast (push_bit Page_SHIFT (pageno (m_current_page (cpu s)))))
              TRAP_EXEC (pageno (m_current_page (cpu s))) s of
         Throws e s1 \<Rightarrow> Some (Throws e s1)
       | Returns s1 \<Rightarrow>
           if pageno (m_current_page (cpu s1)) \<noteq> pc_pageno s1
           then change_page fuel cfg ext (pc_pageno s1) s1
           else Some (Returns s1))"
  using assms by (simp add: Let_def split: outcome.splits)

lemma check_page_matches:
  assumes IH: "\<And>n s s'. n = pc_pageno s \<Longrightarrow> change_page k cfg ext n s = Some (Returns s')
                \<Longrightarrow> current_page_matches_pc s'"
    and pre: "current_page_matches_pc s \<or> has_trap (page_at (memory s) (page (m_current_page (cpu s))))"
    and run: "check_page k cfg ext s = Some (Returns s')"
  shows "current_page_matches_pc s'"
proof (cases "has_trap (page_at (memory s) (page (m_current_page (cpu s))))")
  case False
  with pre run show ?thesis by simp
next
  case True
  let ?cp = "m_current_page (cpu s)"
  obtain s1 where cb: "page_trap ext (page ?cp)
      (pc (cpu s) - scast (push_bit Page_SHIFT (pageno ?cp))) TRAP_EXEC (pageno ?cp) s = Returns s1"
    using True run by (auto simp: Let_def split: outcome.splits)
  show ?thesis
  proof (cases "pageno (m_current_page (cpu s1)) = pc_pageno s1")
    case True
    with \<open>has_trap _\<close> cb run show ?thesis
      by (simp add: Let_def current_page_matches_pc_def)
  next
    case False
    with \<open>has_trap _\<close> cb run have "change_page k cfg ext (pc_pageno s1) s1 = Some (Returns s')"
      by (simp add: Let_def)
    then show ?thesis by (rule IH [OF refl])
  qed
qed

lemma riscv_validate_matches:
  assumes IH: "\<And>n s s'. n = pc_pageno s \<Longrightarrow> change_page k cfg ext n s = Some (Returns s')
                \<Longrightarrow> current_page_matches_pc s'"
    and pre: "current_page_matches_pc s"
    and run: "riscv_validate_current_page k cfg ext s = Some (Returns s')"
  shows "current_page_matches_pc s'"
proof -
  obtain s1 where s1: "(if execute_traps_enabled cfg then check_page k cfg ext s else Some (Returns s))
      = Some (Returns s1)"
    using run by (auto simp del: check_page.simps split: option.splits outcome.splits)
  have m1: "current_page_matches_pc s1"
  proof (cases "execute_traps_enabled cfg")
    case True
    with s1 have "check_page k cfg ext s = Some (Returns s1)" by simp
    with IH pre show ?thesis by (blast intro: check_page_matches)
  next
    case False
    with s1 pre show ?thesis by simp
  qed
  from run s1 have "s' = s1 \<or> s' = s1\<lparr>memory := create_decoder_cache (page (m_current_page (cpu s1))) (memory s1)\<rparr>"
    by (auto simp: Let_def trigger_exception_def simp del: check_page.simps split: if_splits)
  with m1 show ?thesis
    by (auto simp: current_page_matches_pc_def pc_pageno_def)
qed

lemma change_page_matches:
  "n = pc_pageno s \<Longrightarrow> change_page fuel cfg ext n s = Some (Returns s')
     \<Longrightarrow> current_page_matches_pc s'"
proof (induction fuel arbitrary: n s s')
  case 0
  then show ?case by simp
next
  case (Suc k)
  let ?hit = "if RISCV_PAGE_CACHE cfg
           then find (\<lambda>cache. pageno cache = n) (m_page_cache (cpu s)) else None"
  show ?case
  proof (cases ?hit)
    case (Some c)
    then have pn: "pageno c = n" by (auto split: if_splits dest: find_pageno)
    let ?s0 = "s\<lparr>cpu := (cpu s)\<lparr>m_current_page := c\<rparr>\<rparr>"
    from Some Suc.prems(2) have "riscv_validate_current_page k cfg ext ?s0 = Some (Returns s')"
      by (simp del: riscv_validate_current_page.simps)
    moreover have "current_page_matches_pc ?s0"
      using pn Suc.prems(1) by (simp add: current_page_matches_pc_def pc_pageno_def)
    ultimately show ?thesis using Suc.IH by (blast intro: riscv_validate_matches)
  next
    case None
    let ?s1 = "s\<lparr>cpu := (cpu s)\<lparr>m_current_page := (m_current_page (cpu s))\<lparr>pageno := n\<rparr>\<rparr>\<rparr>"
    from None Suc.prems(2) obtain p where p: "mem_get_exec_pageno ext (memory ?s1) (scast n) = Inr p"
      by (auto simp: Let_def simp del: riscv_validate_current_page.simps split: sum.splits)
    let ?s2 = "?s1\<lparr>cpu := (cpu ?s1)\<lparr>m_current_page := (m_current_page (cpu ?s1))\<lparr>page := p\<rparr>\<rparr>\<rparr>"
    let ?s3 = "if RISCV_PAGE_CACHE cfg then ?s2\<lparr>cpu := cache_current_page (cpu ?s2)\<rparr> else ?s2"
    from None p Suc.prems(2) have "riscv_validate_current_page k cfg ext ?s3 = Some (Returns s')"
      by (cases "RISCV_PAGE_CACHE cfg") (simp_all add: Let_def del: riscv_validate_current_page.simps)
    moreover have "current_page_matches_pc ?s3"
      using Suc.prems(1)
      by (simp add: current_page_matches_pc_def pc_pageno_def cache_current_page_def)
    ultimately show ?thesis using Suc.IH by (blast intro: riscv_validate_matches)
  qed
qed

lemma check_page_returns_matching:
  assumes "has_trap (page_at (memory s) (page (m_current_page (cpu s))))"
    and "check_page fuel cfg ext s = Some (Returns s')"
  shows "current_page_matches_pc s'"
proof (rule check_page_matches)
  show "\<And>n s s'. n = pc_pageno s \<Longrightarrow> change_page fuel cfg ext n s = Some (Returns s')
      \<Longrightarrow> current_page_matches_pc s'"
    by (rule change_page_matches)
  show "current_page_matches_pc s \<or> has_trap (page_at (memory s) (page (m_current_page (cpu s))))"
    using assms(1) by simp
  show "check_page fuel cfg ext s = Some (Returns s')"
    by (rule assms(2))
qed

lemma take_bit_31_self:
  fixes a :: "'w::len word"
  assumes "unat a < 2 ^ 31"
  shows "take_bit 31 a = a"
  by (metis assms take_bit_nat_eq_self_iff unsigned_take_bit_eq unsigned_word_eqI)

lemma page_base:
  fixes a :: "'w::len word"
  assumes "LENGTH('w) = 32 \<or> unat a < 2 ^ 31"
  shows "scast (push_bit 12 (ucast (drop_bit 12 a) :: 32 word)) = push_bit 12 (drop_bit 12 a)"
proof (rule bit_word_eqI)
  fix i assume i: "i < LENGTH('w)"
  show "bit (scast (push_bit 12 (ucast (drop_bit 12 a) :: 32 word)) :: 'w word) i
      = bit (push_bit 12 (drop_bit 12 a)) i"
  proof (cases "LENGTH('w) = 32")
    case True
    with i have "i < 31 \<or> i = 31" by auto
    with True show ?thesis by (auto simp: bit_simps min_def not_le)
  next
    case False
    with assms have "unat a < 2 ^ 31" by simp
    then have "take_bit 31 a = a" by (rule take_bit_31_self)
    then have "bit a j \<longleftrightarrow> j < 31 \<and> bit a j" for j
      by (metis bit_take_bit_iff)
    then have hi: "\<not> bit a j" if "31 \<le> j" for j
      using that by (metis not_le)
    show ?thesis
      using i hi [of i] hi [of 31]
      by (auto simp: bit_simps min_def not_le)
  qed
qed

lemma page_offset:
  fixes a :: "'w::len word"
  assumes "LENGTH('w) = 32 \<or> unat a < 2 ^ 31"
  shows "a - scast (push_bit Page_SHIFT (ucast (drop_bit Page_SHIFT a) :: 32 word))
           = take_bit Page_SHIFT a"
proof -
  have "push_bit 12 (drop_bit 12 a) + take_bit 12 a = a"
    by (rule bits_ident)
  then have "a - push_bit 12 (drop_bit 12 a) = take_bit 12 a"
    by (simp add: algebra_simps)
  then show ?thesis using page_base [OF assms] by (simp add: Page_SHIFT_def)
qed

lemma sint_pc_pageno:
  fixes s :: "('w::len word) Machine"
  assumes "LENGTH('w) \<le> 43 \<or> unat (pc (cpu s)) < 2 ^ 43"
  shows "sint (pc_pageno s) = int (unat (pc (cpu s)) div 4096)"
proof -
  let ?a = "pc (cpu s)"
  have "unat ?a < 2 ^ 43"
  proof (cases "LENGTH('w) \<le> 43")
    case True
    have "unat ?a < 2 ^ LENGTH('w)" by (rule unsigned_less)
    also have "(2::nat) ^ LENGTH('w) \<le> 2 ^ 43" using True by (rule power_increasing) simp
    finally show ?thesis .
  next
    case False
    with assms show ?thesis by simp
  qed
  then have small: "unat ?a div 4096 < 2 ^ 31" by simp
  have u: "unat (pc_pageno s) = unat ?a div 4096"
  proof -
    have "unat (drop_bit 12 ?a) = drop_bit 12 (unat ?a)" by (rule unat_drop_bit_eq)
    moreover have "drop_bit 12 (unat ?a) = unat ?a div 4096" by (simp add: drop_bit_eq_div)
    ultimately show ?thesis using small
      by (simp add: pc_pageno_def Page_SHIFT_def unsigned_ucast_eq take_bit_nat_eq_self)
  qed
  have ui: "uint (pc_pageno s) = int (unat ?a div 4096)"
    using u by (metis of_nat_unat)
  have "sint (pc_pageno s) = signed_take_bit 31 (uint (pc_pageno s))"
    by (simp add: sint_uint)
  also have "\<dots> = uint (pc_pageno s)"
    using small ui by (intro signed_take_bit_int_eq_self) simp_all
  finally show ?thesis using ui by simp
qed

lemma change_page_quiet:
  assumes r: "resolved_page cfg ext n s = Inr p"
    and nt: "execute_traps_enabled cfg \<longrightarrow> \<not> has_trap (page_at (memory s) p)"
    and ex: "attr_exec (page_at (memory s) p)"
  shows "\<exists>s'. change_page (Suc fuel) cfg ext n s = Some (Returns s') \<and>
           m_current_page (cpu s') = \<lparr>page = p, pageno = n\<rparr> \<and>
           pc (cpu s') = pc (cpu s) \<and> reg (cpu s') = reg (cpu s) \<and>
           (memory s' = memory s \<or> memory s' = create_decoder_cache p (memory s)) \<and>
           m_page_cache (cpu s') =
             (if RISCV_PAGE_CACHE cfg \<and>
                 find (\<lambda>cache. pageno cache = n) (m_page_cache (cpu s)) = None
              then (m_page_cache (cpu s))
                     [m_cache_iterator (cpu s) mod length (m_page_cache (cpu s))
                        := \<lparr>page = p, pageno = n\<rparr>]
              else m_page_cache (cpu s))"
proof (cases "if RISCV_PAGE_CACHE cfg
           then find (\<lambda>cache. pageno cache = n) (m_page_cache (cpu s)) else None")
  case (Some c)
  then have "pageno c = n" by (auto split: if_splits dest: find_pageno)
  moreover from Some r have "page c = p" by (simp add: resolved_page_def)
  ultimately have c: "c = \<lparr>page = p, pageno = n\<rparr>" by (cases c) simp
  from Some nt ex show ?thesis
    by (auto simp: c Let_def split: if_splits)
next
  case None
  with r have g: "mem_get_exec_pageno ext (memory s) (scast n) = Inr p"
    by (simp add: resolved_page_def)
  from None g nt ex show ?thesis
    by (cases "m_current_page (cpu s)")
      (auto simp: Let_def cache_current_page_def split: if_splits)
qed

lemma unat_take_bit_page:
  fixes a :: "'w::len word"
  shows "unat (take_bit Page_SHIFT a) = unat a mod 4096"
  unfolding Page_SHIFT_def
proof -
  have "unat (take_bit 12 a) = take_bit 12 (unat a)"
    by (rule unsigned_take_bit_eq)
  also have "\<dots> = unat a mod 4096"
    by (simp add: take_bit_eq_mod)
  finally show "unat (take_bit 12 a) = unat a mod 4096" .
qed

text \<open>
  Claim C5, as the code has it. When the current execute page has a trap, \<^verbatim>\<open>check_page\<close>
  calls the page's trap callback with \<^verbatim>\<open>pc - (pageno << 12)\<close>, \<^verbatim>\<open>TRAP_EXEC\<close> and the page
  number, and what it does is what the callback does, followed by
  \<^verbatim>\<open>change_page(pc >> 12)\<close> if the current page's number is not \<^verbatim>\<open>(int)(pc >> 12)\<close>
  afterwards. Page numbers are \<^verbatim>\<open>int\<close>s:
  \<^item> whenever \<^verbatim>\<open>check_page\<close> returns, the cached page number is \<^verbatim>\<open>(int)(pc >> 12)\<close>, which
    is \<open>pc div 4096\<close> when addresses have at most 43 bits or the PC is below \<open>2 ^ 43\<close>;
  \<^item> when the callback returns on another page, whose page \<open>p\<close> (from the page cache or
    \<^verbatim>\<open>get_exec_pageno\<close>) is executable and has no trap, \<^verbatim>\<open>check_page\<close> returns with \<open>p\<close>
    and that page number as the current page, the PC and registers the callback left,
    and the page cached if it was not;
  \<^item> if the current page was the PC's page, the offset handed to the callback is the
    PC's offset within the page, \<open>pc mod 4096\<close>, when addresses have 32 bits or the PC
    is below \<open>2 ^ 31\<close>.
  The bound on the depth of the calls only cuts runs short: an outcome reached stays the
  outcome with a larger bound, and when the callback returns and the page of the new PC
  has no trap, \<^verbatim>\<open>check_page\<close> has an outcome at every bound above 0.
\<close>

theorem check_page_trap:
  fixes s :: "('w::len word) Machine"
  assumes "has_trap (page_at (memory s) (page (m_current_page (cpu s))))"
  shows "check_page fuel cfg ext s =
      (case page_trap ext (page (m_current_page (cpu s)))
              (pc (cpu s) - scast (push_bit Page_SHIFT (pageno (m_current_page (cpu s)))))
              TRAP_EXEC (pageno (m_current_page (cpu s))) s of
         Throws e s1 \<Rightarrow> Some (Throws e s1)
       | Returns s1 \<Rightarrow>
           if pageno (m_current_page (cpu s1)) \<noteq> pc_pageno s1
           then change_page fuel cfg ext (pc_pageno s1) s1
           else Some (Returns s1)) \<and>
    (\<forall>s'. check_page fuel cfg ext s = Some (Returns s') \<longrightarrow>
       current_page_matches_pc s' \<and>
       (LENGTH('w) \<le> 43 \<or> unat (pc (cpu s')) < 2 ^ 43 \<longrightarrow>
          sint (pageno (m_current_page (cpu s'))) = int (unat (pc (cpu s')) div 4096))) \<and>
    (\<forall>s1 p. page_trap ext (page (m_current_page (cpu s)))
              (pc (cpu s) - scast (push_bit Page_SHIFT (pageno (m_current_page (cpu s)))))
              TRAP_EXEC (pageno (m_current_page (cpu s))) s = Returns s1 \<and>
          pageno (m_current_page (cpu s1)) \<noteq> pc_pageno s1 \<and>
          resolved_page cfg ext (pc_pageno s1) s1 = Inr p \<and>
          (execute_traps_enabled cfg \<longrightarrow> \<not> has_trap (page_at (memory s1) p)) \<and>
          attr_exec (page_at (memory s1) p) \<longrightarrow>
       (\<exists>s'. check_page (Suc fuel) cfg ext s = Some (Returns s') \<and>
             m_current_page (cpu s') = \<lparr>page = p, pageno = pc_pageno s1\<rparr> \<and>
             pc (cpu s') = pc (cpu s1) \<and> reg (cpu s') = reg (cpu s1) \<and>
             (memory s' = memory s1 \<or> memory s' = create_decoder_cache p (memory s1)) \<and>
             m_page_cache (cpu s') =
               (if RISCV_PAGE_CACHE cfg \<and>
                   find (\<lambda>cache. pageno cache = pc_pageno s1) (m_page_cache (cpu s1)) = None
                then (m_page_cache (cpu s1))
                       [m_cache_iterator (cpu s1) mod length (m_page_cache (cpu s1))
                          := \<lparr>page = p, pageno = pc_pageno s1\<rparr>]
                else m_page_cache (cpu s1)))) \<and>
    (current_page_matches_pc s \<and> (LENGTH('w) = 32 \<or> unat (pc (cpu s)) < 2 ^ 31) \<longrightarrow>
       unat (pc (cpu s) - scast (push_bit Page_SHIFT (pageno (m_current_page (cpu s)))))
         = unat (pc (cpu s)) mod 4096) \<and>
    (\<forall>r. check_page fuel cfg ext s = Some r \<longrightarrow> check_page (Suc fuel) cfg ext s = Some r) \<and>
    (\<forall>s1. page_trap ext (page (m_current_page (cpu s)))
              (pc (cpu s) - scast (push_bit Page_SHIFT (pageno (m_current_page (cpu s)))))
              TRAP_EXEC (pageno (m_current_page (cpu s))) s = Returns s1 \<and>
          (\<forall>p. resolved_page cfg ext (pc_pageno s1) s1 = Inr p \<longrightarrow>
                execute_traps_enabled cfg \<longrightarrow> \<not> has_trap (page_at (memory s1) p)) \<longrightarrow>
       check_page (Suc fuel) cfg ext s \<noteq> None)"
proof (intro conjI allI impI)
  fix r assume "check_page fuel cfg ext s = Some r"
  then show "check_page (Suc fuel) cfg ext s = Some r"
    by (rule check_page_more_fuel)
next
  fix s1
  assume h: "page_trap ext (page (m_current_page (cpu s)))
              (pc (cpu s) - scast (push_bit Page_SHIFT (pageno (m_current_page (cpu s)))))
              TRAP_EXEC (pageno (m_current_page (cpu s))) s = Returns s1 \<and>
          (\<forall>p. resolved_page cfg ext (pc_pageno s1) s1 = Inr p \<longrightarrow>
                execute_traps_enabled cfg \<longrightarrow> \<not> has_trap (page_at (memory s1) p))"
  then have "change_page (Suc fuel) cfg ext (pc_pageno s1) s1 \<noteq> None"
    by (intro change_page_total_no_trap) blast
  with h assms show "check_page (Suc fuel) cfg ext s \<noteq> None"
    by (simp add: check_page_trap_eq del: change_page.simps check_page.simps)
next
  fix s1 p
  assume h: "page_trap ext (page (m_current_page (cpu s)))
              (pc (cpu s) - scast (push_bit Page_SHIFT (pageno (m_current_page (cpu s)))))
              TRAP_EXEC (pageno (m_current_page (cpu s))) s = Returns s1 \<and>
          pageno (m_current_page (cpu s1)) \<noteq> pc_pageno s1 \<and>
          resolved_page cfg ext (pc_pageno s1) s1 = Inr p \<and>
          (execute_traps_enabled cfg \<longrightarrow> \<not> has_trap (page_at (memory s1) p)) \<and>
          attr_exec (page_at (memory s1) p)"
  then have eq: "check_page (Suc fuel) cfg ext s
      = change_page (Suc fuel) cfg ext (pc_pageno s1) s1"
    using assms by (simp add: check_page_trap_eq del: change_page.simps check_page.simps)
  from h have "\<exists>s'. change_page (Suc fuel) cfg ext (pc_pageno s1) s1 = Some (Returns s') \<and>
           m_current_page (cpu s') = \<lparr>page = p, pageno = pc_pageno s1\<rparr> \<and>
           pc (cpu s') = pc (cpu s1) \<and> reg (cpu s') = reg (cpu s1) \<and>
           (memory s' = memory s1 \<or> memory s' = create_decoder_cache p (memory s1)) \<and>
           m_page_cache (cpu s') =
             (if RISCV_PAGE_CACHE cfg \<and>
                 find (\<lambda>cache. pageno cache = pc_pageno s1) (m_page_cache (cpu s1)) = None
              then (m_page_cache (cpu s1))
                     [m_cache_iterator (cpu s1) mod length (m_page_cache (cpu s1))
                        := \<lparr>page = p, pageno = pc_pageno s1\<rparr>]
              else m_page_cache (cpu s1))"
    by (elim conjE) (rule change_page_quiet)
  then show "\<exists>s'. check_page (Suc fuel) cfg ext s = Some (Returns s') \<and>
             m_current_page (cpu s') = \<lparr>page = p, pageno = pc_pageno s1\<rparr> \<and>
             pc (cpu s') = pc (cpu s1) \<and> reg (cpu s') = reg (cpu s1) \<and>
             (memory s' = memory s1 \<or> memory s' = create_decoder_cache p (memory s1)) \<and>
             m_page_cache (cpu s') =
               (if RISCV_PAGE_CACHE cfg \<and>
                   find (\<lambda>cache. pageno cache = pc_pageno s1) (m_page_cache (cpu s1)) = None
                then (m_page_cache (cpu s1))
                       [m_cache_iterator (cpu s1) mod length (m_page_cache (cpu s1))
                          := \<lparr>page = p, pageno = pc_pageno s1\<rparr>]
                else m_page_cache (cpu s1))"
    unfolding eq .
next
  show "check_page fuel cfg ext s =
      (case page_trap ext (page (m_current_page (cpu s)))
              (pc (cpu s) - scast (push_bit Page_SHIFT (pageno (m_current_page (cpu s)))))
              TRAP_EXEC (pageno (m_current_page (cpu s))) s of
         Throws e s1 \<Rightarrow> Some (Throws e s1)
       | Returns s1 \<Rightarrow>
           if pageno (m_current_page (cpu s1)) \<noteq> pc_pageno s1
           then change_page fuel cfg ext (pc_pageno s1) s1
           else Some (Returns s1))"
    using assms by (rule check_page_trap_eq)
next
  fix s' assume "check_page fuel cfg ext s = Some (Returns s')"
  with assms show m: "current_page_matches_pc s'"
    by (rule check_page_returns_matching)
  assume "LENGTH('w) \<le> 43 \<or> unat (pc (cpu s')) < 2 ^ 43"
  then have "sint (pc_pageno s') = int (unat (pc (cpu s')) div 4096)"
    by (rule sint_pc_pageno)
  with m show "sint (pageno (m_current_page (cpu s'))) = int (unat (pc (cpu s')) div 4096)"
    by (simp add: current_page_matches_pc_def)
next
  assume h: "current_page_matches_pc s \<and> (LENGTH('w) = 32 \<or> unat (pc (cpu s)) < 2 ^ 31)"
  then have "pc (cpu s) - scast (push_bit Page_SHIFT (pageno (m_current_page (cpu s))))
      = take_bit Page_SHIFT (pc (cpu s))"
    using page_offset [of "pc (cpu s)"]
    by (simp add: current_page_matches_pc_def pc_pageno_def)
  then show "unat (pc (cpu s) - scast (push_bit Page_SHIFT (pageno (m_current_page (cpu s)))))
         = unat (pc (cpu s)) mod 4096"
    by (simp only: unat_take_bit_page)
qed

text \<open>
  On the sample machine the PC is at byte 4 of page 5, the current page, which has a
  trap. The callback is handed offset 4 and page number 5 (it records them in registers
  10 and 11) for an execute trap (it would throw for another kind), and moves the PC to
  page 7; \<^verbatim>\<open>check_page\<close> returns with page 7 as the current page.
\<close>

theorem check_page_trap_witness:
  "has_trap (page_at (memory sample_machine) (page (m_current_page (cpu sample_machine)))) \<and>
   current_page_matches_pc sample_machine \<and>
   pc (cpu sample_machine) - scast (push_bit Page_SHIFT (pageno (m_current_page (cpu sample_machine)))) = 4 \<and>
   check_page 1 sample_config redirecting sample_machine
     = Some (Returns (sample_machine\<lparr>cpu := sample_cpu
          \<lparr>pc := 0x7000, reg := (reg sample_cpu)(10 := 4, 11 := 5),
           m_current_page := \<lparr>page = 2, pageno = 7\<rparr>\<rparr>\<rparr>)) \<and>
   current_page_matches_pc (sample_machine\<lparr>cpu := sample_cpu
          \<lparr>pc := 0x7000, reg := (reg sample_cpu)(10 := 4, 11 := 5),
           m_current_page := \<lparr>page = 2, pageno = 7\<rparr>\<rparr>\<rparr>)"
proof -
  let ?s' = "sample_machine\<lparr>cpu := sample_cpu
          \<lparr>pc := 0x7000, reg := (reg sample_cpu)(10 := 4, 11 := 5),
           m_current_page := \<lparr>page = 2, pageno = 7\<rparr>\<rparr>\<rparr>"
  have trap: "has_trap (page_at (memory sample_machine) (page (m_current_page (cpu sample_machine))))"
    by (simp add: sample_defs)
  have m0: "current_page_matches_pc sample_machine"
    by (simp add: current_page_matches_pc_def sample_defs run_defs)
  have ofs: "pc (cpu sample_machine)
      - scast (push_bit Page_SHIFT (pageno (m_current_page (cpu sample_machine)))) = 4"
    by (simp add: sample_defs run_defs)
  have run: "check_page 1 sample_config redirecting sample_machine = Some (Returns ?s')"
    by (simp add: sample_defs run_defs)
  from check_page_trap [OF trap, of 1 sample_config redirecting] run
  have "current_page_matches_pc ?s'" by blast
  with trap m0 ofs run show ?thesis by simp
qed

lemmas sample64_defs =
  sample_config_def recording64_def far_jumping64_def sample_machine64_high_def
  sample_machine64_low_def sample_memory64_def sample_pages_def

text \<open>
  Claim C5 as stated fails beyond the range of \<^verbatim>\<open>int\<close> page numbers, on 64-bit machines.
  With the PC at \<open>0x80000004\<close>, byte 4 of the current page \<open>0x80000\<close>, the callback is
  handed the offset \<open>0x100000004\<close>, since \<^verbatim>\<open>pageno << 12\<close> overflows the \<^verbatim>\<open>int\<close>. And when
  the callback moves the PC from page 0 to \<open>2 ^ 44\<close>, which lies on page \<open>2 ^ 32\<close>,
  \<^verbatim>\<open>(int)(pc >> 12)\<close> is 0 again: \<^verbatim>\<open>check_page\<close> returns without \<^verbatim>\<open>change_page\<close>, the
  current page still being page 0.
\<close>

theorem check_page_int_pageno:
  "has_trap (page_at (memory sample_machine64_high)
      (page (m_current_page (cpu sample_machine64_high)))) \<and>
   current_page_matches_pc sample_machine64_high \<and>
   unat (pc (cpu sample_machine64_high)) mod 4096 = 4 \<and>
   check_page 1 sample_config recording64 sample_machine64_high
     = Some (Returns (sample_machine64_high
          \<lparr>cpu := (cpu sample_machine64_high)
             \<lparr>reg := (reg (cpu sample_machine64_high))(10 := 0x100000004)\<rparr>\<rparr>)) \<and>
   has_trap (page_at (memory sample_machine64_low)
      (page (m_current_page (cpu sample_machine64_low)))) \<and>
   current_page_matches_pc sample_machine64_low \<and>
   check_page 1 sample_config far_jumping64 sample_machine64_low
     = Some (Returns (sample_machine64_low
          \<lparr>cpu := (cpu sample_machine64_low)\<lparr>pc := 0x100000000000\<rparr>\<rparr>)) \<and>
   m_current_page (cpu (sample_machine64_low
          \<lparr>cpu := (cpu sample_machine64_low)\<lparr>pc := 0x100000000000\<rparr>\<rparr>))
     = \<lparr>page = 1, pageno = 0\<rparr> \<and>
   unat (0x100000000000 :: 64 word) div 4096 = 0x100000000"
  by (simp add: current_page_matches_pc_def sample64_defs run_defs)

end
